theory Spec2Isabelle
  imports Complex_Main "HOL-Library.Word"
begin

unbundle bit_operations_syntax

section \<open>Bytes, strings and the standard-library helpers the package calls\<close>

text \<open>
  A Go \<^verbatim>\<open>string\<close> is a sequence of bytes and is modelled as \<^typ>\<open>string\<close>; a
  \<^verbatim>\<open>[]byte\<close> is a list of 8-bit words.
\<close>

type_synonym byte = "8 word"
type_synonym bytes = "byte list"

subsection \<open>\<^verbatim>\<open>strings.Split(s, ".")\<close>\<close>

text \<open>
  Go cuts at every occurrence of the separator and keeps empty pieces: the result of
  splitting the empty string is one empty piece, and \<^verbatim>\<open>"a..c"\<close> gives three pieces.
  The result is never empty, so the second branch of the inner case is never taken.
\<close>

fun Split :: "char \<Rightarrow> string \<Rightarrow> string list" where
  "Split sep [] = [[]]"
| "Split sep (c # cs) =
     (if c = sep then [] # Split sep cs
      else (case Split sep cs of
              p # ps \<Rightarrow> (c # p) # ps
            | [] \<Rightarrow> [[c]]))"

subsection \<open>\<^verbatim>\<open>base64.RawURLEncoding.DecodeString\<close>\<close>

text \<open>
  The URL-safe alphabet without padding. The decoder skips carriage returns and line
  feeds, rejects every other character outside the alphabet, rejects a dangling single
  character, and turns a final group of two or three characters into one or two bytes
  (the unused low bits are not checked, the encoding is not strict).
\<close>

datatype b64_error = CorruptInputError

definition decodeMap :: "char \<Rightarrow> nat option" where
  "decodeMap c =
     (let n = of_char c :: nat in
      if 65 \<le> n \<and> n \<le> 90 then Some (n - 65)
      else if 97 \<le> n \<and> n \<le> 122 then Some (n - 71)
      else if 48 \<le> n \<and> n \<le> 57 then Some (n + 4)
      else if n = 45 then Some 62
      else if n = 95 then Some 63
      else None)"

fun sextets :: "string \<Rightarrow> nat list option" where
  "sextets [] = Some []"
| "sextets (c # cs) =
     (if of_char c = (10::nat) \<or> of_char c = (13::nat) then sextets cs
      else (case decodeMap c of
              None \<Rightarrow> None
            | Some v \<Rightarrow> (case sextets cs of None \<Rightarrow> None | Some vs \<Rightarrow> Some (v # vs))))"

fun decodeQuanta :: "nat list \<Rightarrow> bytes option" where
  "decodeQuanta [] = Some []"
| "decodeQuanta [a] = None"
| "decodeQuanta [a, b] = Some [of_nat ((a * 64 + b) div 16)]"
| "decodeQuanta [a, b, c] =
     Some [of_nat (((a * 64 + b) * 64 + c) div 1024), of_nat (((a * 64 + b) * 64 + c) div 4)]"
| "decodeQuanta (a # b # c # d # rest) =
     (case decodeQuanta rest of
        None \<Rightarrow> None
      | Some bs \<Rightarrow>
          Some (of_nat ((((a * 64 + b) * 64 + c) * 64 + d) div 65536)
              # of_nat ((((a * 64 + b) * 64 + c) * 64 + d) div 256)
              # of_nat (((a * 64 + b) * 64 + c) * 64 + d) # bs))"

definition DecodeString :: "string \<Rightarrow> b64_error + bytes" where
  "DecodeString s =
     (case sextets s of
        None \<Rightarrow> Inl CorruptInputError
      | Some vs \<Rightarrow> (case decodeQuanta vs of None \<Rightarrow> Inl CorruptInputError | Some bs \<Rightarrow> Inr bs))"

subsection \<open>\<^verbatim>\<open>[]byte(s)\<close>\<close>

definition bytes_of :: "string \<Rightarrow> bytes" where
  "bytes_of s = map (\<lambda>c. of_nat (of_char c)) s"

subsection \<open>\<^verbatim>\<open>encoding/json\<close>\<close>

text \<open>
  The JSON decoder is outside the package and is a parameter of every function that
  calls it: one function per target type, from the bytes to the decoded value or an
  error. A value held in an \<^verbatim>\<open>interface{}\<close> is a JSON value. The decoder produces a
  \<^verbatim>\<open>float64\<close> for every JSON number: \<^verbatim>\<open>JFloat\<close>, with the rational number the float
  denotes. \<^verbatim>\<open>JNumber\<close> is an \<^verbatim>\<open>int64\<close>, which only the package itself puts into a map,
  when it builds the claims of a token; a type assertion to \<^verbatim>\<open>float64\<close> fails on it.
\<close>

datatype json_error = SyntaxError | UnmarshalTypeError | UnsupportedTypeError

datatype json =
    JNull
  | JBool bool
  | JNumber int
  | JFloat rat
  | JString string
  | JArray "json list"
  | JObject "(string \<times> json) list"

type_synonym json_map = "string \<rightharpoonup> json"

subsection \<open>\<^verbatim>\<open>time\<close>\<close>

text \<open>
  An instant is its number of nanoseconds since the Unix epoch. A numeric date is an
  instant cut down to a whole second, as \<^verbatim>\<open>jwt.NewNumericDate\<close> does.
\<close>

type_synonym Time = int

definition time_Unix :: "int \<Rightarrow> int \<Rightarrow> Time" where
  "time_Unix sec nsec = sec * 1000000000 + nsec"

definition time_UnixMilli :: "int \<Rightarrow> Time" where
  "time_UnixMilli msec = msec * 1000000"

definition Time_Unix :: "Time \<Rightarrow> int" where
  "Time_Unix t = t div 1000000000"

definition NewNumericDate :: "Time \<Rightarrow> Time" where
  "NewNumericDate t = t - t mod 1000000000"

text \<open>
  The conversion \<^verbatim>\<open>int64(f)\<close> of a float cuts the fraction off, towards zero. (Go leaves
  the result open for a float outside the range of \<^verbatim>\<open>int64\<close>; the arithmetic here is exact
  and unbounded.)
\<close>

definition int64_of_float :: "rat \<Rightarrow> int" where
  "int64_of_float f = (if 0 \<le> f then \<lfloor>f\<rfloor> else \<lceil>f\<rceil>)"

subsection \<open>\<^verbatim>\<open>base64.RawURLEncoding.EncodeToString\<close>\<close>

definition encodeChar :: "nat \<Rightarrow> char" where
  "encodeChar n =
     (if n < 26 then char_of (n + 65)
      else if n < 52 then char_of (n + 71)
      else if n < 62 then char_of (n - 4)
      else if n = 62 then CHR ''-''
      else CHR ''_'')"

fun encodeQuanta :: "nat list \<Rightarrow> nat list" where
  "encodeQuanta [] = []"
| "encodeQuanta [a] = [a div 4, a mod 4 * 16]"
| "encodeQuanta [a, b] = [a div 4, a mod 4 * 16 + b div 16, b mod 16 * 4]"
| "encodeQuanta (a # b # c # rest) =
     a div 4 # (a mod 4 * 16 + b div 16) # (b mod 16 * 4 + c div 64) # c mod 64
       # encodeQuanta rest"

definition EncodeToString :: "bytes \<Rightarrow> string" where
  "EncodeToString bs = map encodeChar (encodeQuanta (map unat bs))"

subsection \<open>\<^verbatim>\<open>new(big.Int).SetBytes\<close>\<close>

text \<open>The bytes read as a big-endian unsigned integer.\<close>

definition SetBytes :: "bytes \<Rightarrow> int" where
  "SetBytes bs = foldl (\<lambda>acc b. acc * 256 + uint b) 0 bs"

section \<open>The key directory (public\_key.go)\<close>

record JWKey =
  Kty :: string
  Kid :: string
  Use :: string
  Alg :: string
  N :: string
  E :: string

record AppleJWK =
  Keys :: "JWKey list"

record rsa_PublicKey =
  rsa_N :: int
  rsa_E :: int

datatype key_error =
    FailedToDecodeModulus b64_error
  | FailedToDecodeExponent b64_error
  | UnexpectedExponentLength
  | NoMatchingKey string

text \<open>
  The exponent as the source assembles it: shifts and bitwise or on \<^verbatim>\<open>int\<close>. The three
  bytes give a value below \<open>2 ^ 24\<close>, inside every width Go's \<^verbatim>\<open>int\<close> can have.
\<close>

definition exponent_of :: "bytes \<Rightarrow> int option" where
  "exponent_of eBytes =
     (if length eBytes = 3 then
        Some (push_bit 16 (uint (eBytes ! 0)) OR push_bit 8 (uint (eBytes ! 1)) OR uint (eBytes ! 2))
      else if length eBytes = 1 then Some (uint (eBytes ! 0))
      else None)"

text \<open>
  The loop over \<^verbatim>\<open>jwk.Keys\<close> returns at the first entry whose key id matches, with a key
  or with an error; entries after it are never looked at.
\<close>

fun lookup_key :: "JWKey list \<Rightarrow> string \<Rightarrow> key_error + rsa_PublicKey" where
  "lookup_key [] kid = Inl (NoMatchingKey kid)"
| "lookup_key (key # rest) kid =
     (if Kid key = kid then
        (case DecodeString (N key) of
           Inl err \<Rightarrow> Inl (FailedToDecodeModulus err)
         | Inr nBytes \<Rightarrow>
             (case DecodeString (E key) of
                Inl err \<Rightarrow> Inl (FailedToDecodeExponent err)
              | Inr eBytes \<Rightarrow>
                  (case exponent_of eBytes of
                     None \<Rightarrow> Inl UnexpectedExponentLength
                   | Some eInt \<Rightarrow> Inr \<lparr>rsa_N = SetBytes nBytes, rsa_E = eInt\<rparr>)))
      else lookup_key rest kid)"

definition GetAppleRSAPublicKey :: "AppleJWK \<Rightarrow> string \<Rightarrow> key_error + rsa_PublicKey" where
  "GetAppleRSAPublicKey jwk kid = lookup_key (Keys jwk) kid"

section \<open>The claim payloads (subscription.go, client.go)\<close>

text \<open>
  The fields of \<^verbatim>\<open>SubscriptionInfo\<close> carry the prefix \<open>SI_\<close>, since several of them share
  their name with a field of the renewal payload. A pointer field is an option.
\<close>

record SubscriptionInfo =
  SI_Environment :: string
  SI_AppAppleID :: int
  SI_BundleID :: string
  SI_ProductID :: string
  SI_Storefront :: string
  SI_StorefrontID :: string
  SI_OriginalTransactionID :: string
  SI_SubscriptionGroupID :: string
  SI_PurchaseDate :: string
  SI_OriginalPurchaseDate :: string
  SI_ExpirationDate :: string
  SI_IsInBillingRetryPeriod :: "bool option"
  SI_GracePeriodExpiresDate :: "string option"
  SI_AutoRenewStatus :: int
  SI_AutoRenewProductID :: "string option"
  SI_IsUpgraded :: "bool option"
  SI_OfferType :: "int option"
  SI_OfferIdentifier :: "string option"
  SI_SignedTransactionInfo :: string
  SI_SignedRenewalInfo :: string

type_synonym Timestamp = int
type_synonym OfferIdentifier = string

record JWSRenewalInfoDecodedPayload =
  OriginalTransactionId :: string
  TransactionId :: string
  WebOrderLineItemId :: string
  BundleId :: string
  AppAccountToken :: "string option"
  ProductId :: string
  Type :: string
  SubscriptionGroupIdentifier :: string
  Quantity :: "int option"
  Price :: "int option"
  Currency :: string
  Storefront :: string
  StorefrontId :: string
  EligibleWinBackOfferIds :: "OfferIdentifier list"
  OfferType :: int
  OfferDiscountType :: string
  OriginalPurchaseDate :: Timestamp
  PurchaseDate :: Timestamp
  RecentSubscriptionStartDate :: Timestamp
  IsInBillingRetryPeriod :: bool
  GracePeriodExpiresDate :: Timestamp
  AutoRenewStatus :: int
  AutoRenewProductId :: string
  ExpirationIntent :: int
  ExpiresDate :: Timestamp
  IsUpgraded :: bool
  RenewalDate :: Timestamp
  RenewalPrice :: int
  InAppOwnershipType :: string
  PriceIncreaseStatus :: int
  RevocationDate :: Timestamp
  RevocationReason :: string
  TransactionReason :: string
  SignedDate :: Timestamp
  Environment :: string
  OfferIdentifier :: string

definition ToNumericDate :: "Timestamp \<Rightarrow> Time" where
  "ToNumericDate t = NewNumericDate (time_UnixMilli t)"

section \<open>Unverified decoding (JWT.go, client.go)\<close>

datatype decode_error =
    InvalidJWTFormat
  | FailedToDecodePayload b64_error
  | FailedToUnmarshalPayload json_error

definition DecodeJWSTransaction ::
  "(bytes \<Rightarrow> json_error + SubscriptionInfo) \<Rightarrow> string \<Rightarrow> decode_error + SubscriptionInfo" where
  "DecodeJWSTransaction json_Unmarshal jws =
     (let parts = Split CHR ''.'' jws in
      if length parts \<noteq> 3 then Inl InvalidJWTFormat
      else (case DecodeString (parts ! 1) of
              Inl err \<Rightarrow> Inl (FailedToDecodePayload err)
            | Inr payload \<Rightarrow>
                (case json_Unmarshal payload of
                   Inl err \<Rightarrow> Inl (FailedToUnmarshalPayload err)
                 | Inr transaction \<Rightarrow> Inr transaction)))"

definition JWSRenewalInfoDecoded ::
  "(bytes \<Rightarrow> json_error + JWSRenewalInfoDecodedPayload) \<Rightarrow> string
     \<Rightarrow> decode_error + JWSRenewalInfoDecodedPayload" where
  "JWSRenewalInfoDecoded json_Unmarshal jws =
     (let parts = Split CHR ''.'' jws in
      if length parts \<noteq> 3 then Inl InvalidJWTFormat
      else (case DecodeString (parts ! 1) of
              Inl err \<Rightarrow> Inl (FailedToDecodePayload err)
            | Inr payload \<Rightarrow>
                (case json_Unmarshal payload of
                   Inl err \<Rightarrow> Inl (FailedToUnmarshalPayload err)
                 | Inr transaction \<Rightarrow> Inr transaction)))"

section \<open>Fetching the key directory (public\_key.go)\<close>

text \<open>
  \<^verbatim>\<open>http.Get\<close> either fails in the transport or delivers a response, whatever its status
  code is. \<^verbatim>\<open>json.NewDecoder(resp.Body).Decode(&AppleJWKs)\<close> writes through the pointer to
  the package-level variable, so the decoder is a parameter that gives, for a body, what
  it leaves in a variable that was \<^verbatim>\<open>nil\<close> and the error it returns, if any.
\<close>

record http_Response =
  StatusCode :: int
  Body :: bytes

datatype net_error = TransportError

datatype fetch_error =
    FailedToFetch net_error
  | FailedToDecode json_error

text \<open>
  The package-level variable \<^verbatim>\<open>AppleJWKs\<close> is passed in and returned next to the result.
  The result on success is that pointer, which can be \<^verbatim>\<open>nil\<close>.
\<close>

definition FetchAppleJWKs ::
  "(bytes \<Rightarrow> AppleJWK option \<times> json_error option) \<Rightarrow> net_error + http_Response
     \<Rightarrow> AppleJWK option \<Rightarrow> (fetch_error + AppleJWK option) \<times> AppleJWK option" where
  "FetchAppleJWKs json_Decode http_Get AppleJWKs =
     (case AppleJWKs of
        Some jwks \<Rightarrow> (Inr (Some jwks), AppleJWKs)
      | None \<Rightarrow>
          (case http_Get of
             Inl err \<Rightarrow> (Inl (FailedToFetch err), AppleJWKs)
           | Inr resp \<Rightarrow>
               (case json_Decode (Body resp) of
                  (stored, Some err) \<Rightarrow> (Inl (FailedToDecode err), stored)
                | (stored, None) \<Rightarrow> (Inr stored, stored))))"

section \<open>The JWT library as the package calls it\<close>

text \<open>
  The package verifies and signs through \<^verbatim>\<open>github.com/golang-jwt/jwt/v5\<close>. This section
  follows that library where the package depends on it: the signing methods it
  registers, \<^verbatim>\<open>ParseUnverified\<close>, \<^verbatim>\<open>ParseWithClaims\<close> with the default validator, and
  \<^verbatim>\<open>SignedString\<close>. Cryptographic primitives and the JSON codec stay parameters.
\<close>

datatype hash = SHA256 | SHA384 | SHA512

datatype SigningMethod =
    SigningMethodHMAC hash
  | SigningMethodRSA hash
  | SigningMethodRSAPSS hash
  | SigningMethodECDSA hash
  | SigningMethodEd25519
  | SigningMethodNone

fun Method_Alg :: "SigningMethod \<Rightarrow> string" where
  "Method_Alg (SigningMethodHMAC SHA256) = ''HS256''"
| "Method_Alg (SigningMethodHMAC SHA384) = ''HS384''"
| "Method_Alg (SigningMethodHMAC SHA512) = ''HS512''"
| "Method_Alg (SigningMethodRSA SHA256) = ''RS256''"
| "Method_Alg (SigningMethodRSA SHA384) = ''RS384''"
| "Method_Alg (SigningMethodRSA SHA512) = ''RS512''"
| "Method_Alg (SigningMethodRSAPSS SHA256) = ''PS256''"
| "Method_Alg (SigningMethodRSAPSS SHA384) = ''PS384''"
| "Method_Alg (SigningMethodRSAPSS SHA512) = ''PS512''"
| "Method_Alg (SigningMethodECDSA SHA256) = ''ES256''"
| "Method_Alg (SigningMethodECDSA SHA384) = ''ES384''"
| "Method_Alg (SigningMethodECDSA SHA512) = ''ES512''"
| "Method_Alg SigningMethodEd25519 = ''EdDSA''"
| "Method_Alg SigningMethodNone = ''none''"

definition signingMethods :: "SigningMethod list" where
  "signingMethods =
     [SigningMethodHMAC SHA256, SigningMethodHMAC SHA384, SigningMethodHMAC SHA512,
      SigningMethodRSA SHA256, SigningMethodRSA SHA384, SigningMethodRSA SHA512,
      SigningMethodRSAPSS SHA256, SigningMethodRSAPSS SHA384, SigningMethodRSAPSS SHA512,
      SigningMethodECDSA SHA256, SigningMethodECDSA SHA384, SigningMethodECDSA SHA512,
      SigningMethodEd25519, SigningMethodNone]"

definition GetSigningMethod :: "string \<Rightarrow> SigningMethod option" where
  "GetSigningMethod alg = find (\<lambda>m. Method_Alg m = alg) signingMethods"

record 'c Token =
  Raw :: string
  Method :: SigningMethod
  Header :: json_map
  Claims :: 'c
  Signature :: bytes
  Valid :: bool

subsection \<open>Parsing without verification\<close>

datatype malformed =
    InvalidNumberOfSegments
  | CouldNotDecodeHeader b64_error
  | CouldNotJSONDecodeHeader json_error
  | CouldNotDecodeClaim b64_error
  | CouldNotJSONDecodeClaim json_error

datatype parse_error =
    ErrTokenMalformed malformed
  | SigningMethodUnavailable
  | SigningMethodUnspecified

definition ParseUnverified ::
  "(bytes \<Rightarrow> json_error + json_map) \<Rightarrow> (bytes \<Rightarrow> json_error + 'c) \<Rightarrow> string
     \<Rightarrow> parse_error + ('c Token \<times> string list)" where
  "ParseUnverified unmarshal_header unmarshal_claims tokenString =
     (let parts = Split CHR ''.'' tokenString in
      if length parts \<noteq> 3 then Inl (ErrTokenMalformed InvalidNumberOfSegments)
      else (case DecodeString (parts ! 0) of
        Inl err \<Rightarrow> Inl (ErrTokenMalformed (CouldNotDecodeHeader err))
      | Inr headerBytes \<Rightarrow>
      (case unmarshal_header headerBytes of
        Inl err \<Rightarrow> Inl (ErrTokenMalformed (CouldNotJSONDecodeHeader err))
      | Inr header \<Rightarrow>
      (case DecodeString (parts ! 1) of
        Inl err \<Rightarrow> Inl (ErrTokenMalformed (CouldNotDecodeClaim err))
      | Inr claimBytes \<Rightarrow>
      (case unmarshal_claims claimBytes of
        Inl err \<Rightarrow> Inl (ErrTokenMalformed (CouldNotJSONDecodeClaim err))
      | Inr claims \<Rightarrow>
      (case header ''alg'' of
        Some (JString alg) \<Rightarrow>
          (case GetSigningMethod alg of
             None \<Rightarrow> Inl SigningMethodUnavailable
           | Some method \<Rightarrow>
               Inr (\<lparr>Raw = tokenString, Method = method, Header = header, Claims = claims,
                     Signature = [], Valid = False\<rparr>, parts))
      | _ \<Rightarrow> Inl SigningMethodUnspecified))))))"

subsection \<open>Signature verification with an RSA public key\<close>

text \<open>
  Every key the package hands to the library is an \<^verbatim>\<open>*rsa.PublicKey\<close>. The two RSA
  families pass it to the primitive; every other method refuses the key by its type,
  and \<^verbatim>\<open>none\<close> refuses every key but the library's own marker.
\<close>

record crypto =
  rsa_VerifyPKCS1v15 :: "rsa_PublicKey \<Rightarrow> hash \<Rightarrow> string \<Rightarrow> bytes \<Rightarrow> bool"
  rsa_VerifyPSS :: "rsa_PublicKey \<Rightarrow> hash \<Rightarrow> string \<Rightarrow> bytes \<Rightarrow> bool"

datatype signature_error =
    ErrVerification
  | ErrInvalidKeyType
  | NoneSignatureTypeDisallowedError

fun Method_Verify ::
  "crypto \<Rightarrow> SigningMethod \<Rightarrow> string \<Rightarrow> bytes \<Rightarrow> rsa_PublicKey \<Rightarrow> signature_error option" where
  "Method_Verify C (SigningMethodRSA h) signingString sig key =
     (if rsa_VerifyPKCS1v15 C key h signingString sig then None else Some ErrVerification)"
| "Method_Verify C (SigningMethodRSAPSS h) signingString sig key =
     (if rsa_VerifyPSS C key h signingString sig then None else Some ErrVerification)"
| "Method_Verify C (SigningMethodHMAC h) signingString sig key = Some ErrInvalidKeyType"
| "Method_Verify C (SigningMethodECDSA h) signingString sig key = Some ErrInvalidKeyType"
| "Method_Verify C SigningMethodEd25519 signingString sig key = Some ErrInvalidKeyType"
| "Method_Verify C SigningMethodNone signingString sig key = Some NoneSignatureTypeDisallowedError"

subsection \<open>The default validator\<close>

text \<open>
  The validator reads the claims through the methods of the \<^verbatim>\<open>jwt.Claims\<close> interface.
  With the default options it checks the expiry and the not-before time, each only when
  the accessor returns a date, and fails when an accessor itself returns an error.
\<close>

datatype claims_error =
    ExpirationTimeNotSet
  | IssuedAtNotSet
  | FailedToParseJWT parse_error
  | ClaimNotFound string
  | ErrInvalidType string

datatype validation_error =
    AccessorError claims_error
  | ErrTokenExpired
  | ErrTokenNotValidYet

definition verifyExpiresAt :: "claims_error + Time option \<Rightarrow> Time \<Rightarrow> validation_error list" where
  "verifyExpiresAt expires cmp =
     (case expires of
        Inl err \<Rightarrow> [AccessorError err]
      | Inr None \<Rightarrow> []
      | Inr (Some e) \<Rightarrow> if cmp < e then [] else [ErrTokenExpired])"

definition verifyNotBefore :: "claims_error + Time option \<Rightarrow> Time \<Rightarrow> validation_error list" where
  "verifyNotBefore nbf cmp =
     (case nbf of
        Inl err \<Rightarrow> [AccessorError err]
      | Inr None \<Rightarrow> []
      | Inr (Some n) \<Rightarrow> if \<not> cmp < n then [] else [ErrTokenNotValidYet])"

definition Validate ::
  "('c \<Rightarrow> claims_error + Time option) \<Rightarrow> ('c \<Rightarrow> claims_error + Time option) \<Rightarrow> Time \<Rightarrow> 'c
     \<Rightarrow> validation_error list" where
  "Validate GetExpirationTime GetNotBefore now claims =
     verifyExpiresAt (GetExpirationTime claims) now @ verifyNotBefore (GetNotBefore claims) now"

subsection \<open>Parsing with verification\<close>

datatype keyfunc_error = UnexpectedSigningMethod "json option"

datatype jwt_error =
    ParseError parse_error
  | CouldNotDecodeSignature b64_error
  | ErrTokenUnverifiable keyfunc_error
  | ErrTokenSignatureInvalid signature_error
  | ErrTokenInvalidClaims "validation_error list"

text \<open>
  A claims type enters as its JSON decoder and its two accessors. The steps: parse
  without verification, decode the signature segment, ask the key function for the
  key, verify the signature over header and payload segment with the method the header
  names, validate the claims. (The first release of version 5 asked the key function
  before it decoded the signature segment; the two orders differ only on an envelope
  whose signature segment does not decode, in the error that is reported.)
\<close>

definition ParseWithClaims ::
  "(bytes \<Rightarrow> json_error + json_map) \<Rightarrow> crypto \<Rightarrow> (bytes \<Rightarrow> json_error + 'c)
     \<Rightarrow> ('c \<Rightarrow> claims_error + Time option) \<Rightarrow> ('c \<Rightarrow> claims_error + Time option) \<Rightarrow> Time
     \<Rightarrow> string \<Rightarrow> ('c Token \<Rightarrow> keyfunc_error + rsa_PublicKey) \<Rightarrow> jwt_error + 'c Token" where
  "ParseWithClaims unmarshal_header C unmarshal_claims GetExpirationTime GetNotBefore now
       tokenString keyFunc =
     (case ParseUnverified unmarshal_header unmarshal_claims tokenString of
        Inl err \<Rightarrow> Inl (ParseError err)
      | Inr (token, parts) \<Rightarrow>
      (case DecodeString (parts ! 2) of
        Inl err \<Rightarrow> Inl (CouldNotDecodeSignature err)
      | Inr sig \<Rightarrow>
      (case keyFunc (token\<lparr>Signature := sig\<rparr>) of
        Inl err \<Rightarrow> Inl (ErrTokenUnverifiable err)
      | Inr key \<Rightarrow>
      (case Method_Verify C (Method token) (parts ! 0 @ ''.'' @ parts ! 1) sig key of
        Some err \<Rightarrow> Inl (ErrTokenSignatureInvalid err)
      | None \<Rightarrow>
      (case Validate GetExpirationTime GetNotBefore now (Claims token) of
        [] \<Rightarrow> Inr (token\<lparr>Signature := sig, Valid := True\<rparr>)
      | err # errs \<Rightarrow> Inl (ErrTokenInvalidClaims (err # errs)))))))"

subsection \<open>The accessors of \<^verbatim>\<open>jwt.MapClaims\<close>\<close>

text \<open>
  \<^verbatim>\<open>newNumericDateFromSeconds\<close> splits the float into its whole part and its fraction
  (\<^verbatim>\<open>math.Modf\<close>) and builds the date from the whole seconds and the fraction in
  nanoseconds. \<^verbatim>\<open>parseNumericDate\<close> takes a claim that is absent, or present as the float
  zero, for no date, any other float for a date, and a value of another type for an
  error.
\<close>

definition newNumericDateFromSeconds :: "rat \<Rightarrow> Time" where
  "newNumericDateFromSeconds f =
     (let whole = int64_of_float f; fraction = f - of_int whole
      in NewNumericDate (time_Unix whole (int64_of_float (fraction * 1000000000))))"

definition MapClaims_parseNumericDate :: "json_map \<Rightarrow> string \<Rightarrow> claims_error + Time option" where
  "MapClaims_parseNumericDate m key =
     (case m key of
        None \<Rightarrow> Inr None
      | Some (JFloat v) \<Rightarrow>
          if v = 0 then Inr None else Inr (Some (newNumericDateFromSeconds v))
      | Some _ \<Rightarrow> Inl (ErrInvalidType key))"

definition MapClaims_GetExpirationTime :: "json_map \<Rightarrow> claims_error + Time option" where
  "MapClaims_GetExpirationTime m = MapClaims_parseNumericDate m ''exp''"

definition MapClaims_GetNotBefore :: "json_map \<Rightarrow> claims_error + Time option" where
  "MapClaims_GetNotBefore m = MapClaims_parseNumericDate m ''nbf''"

section \<open>The accessors of the claim payloads (client.go, subscription.go)\<close>

definition JWSRenewalInfoDecodedPayload_GetExpirationTime ::
  "JWSRenewalInfoDecodedPayload \<Rightarrow> claims_error + Time option" where
  "JWSRenewalInfoDecodedPayload_GetExpirationTime J =
     (if ExpiresDate J = 0 then Inl ExpirationTimeNotSet
      else Inr (Some (ToNumericDate (ExpiresDate J))))"

definition JWSRenewalInfoDecodedPayload_GetIssuedAt ::
  "JWSRenewalInfoDecodedPayload \<Rightarrow> claims_error + Time option" where
  "JWSRenewalInfoDecodedPayload_GetIssuedAt J =
     (if SignedDate J = 0 then Inl IssuedAtNotSet
      else Inr (Some (ToNumericDate (SignedDate J))))"

definition JWSRenewalInfoDecodedPayload_GetNotBefore ::
  "JWSRenewalInfoDecodedPayload \<Rightarrow> claims_error + Time option" where
  "JWSRenewalInfoDecodedPayload_GetNotBefore J = Inr None"

definition parseJWT ::
  "(bytes \<Rightarrow> json_error + json_map) \<Rightarrow> string \<Rightarrow> claims_error + json_map" where
  "parseJWT unmarshal_map signedJWT =
     (case ParseUnverified unmarshal_map unmarshal_map signedJWT of
        Inl err \<Rightarrow> Inl (FailedToParseJWT err)
      | Inr (token, parts) \<Rightarrow> Inr (Claims token))"

definition SubscriptionInfo_GetExpirationTime ::
  "(bytes \<Rightarrow> json_error + json_map) \<Rightarrow> SubscriptionInfo \<Rightarrow> claims_error + Time option" where
  "SubscriptionInfo_GetExpirationTime unmarshal_map s =
     (case parseJWT unmarshal_map (SI_SignedTransactionInfo s) of
        Inl err \<Rightarrow> Inl err
      | Inr claims \<Rightarrow>
          (case claims ''exp'' of
             Some (JFloat v) \<Rightarrow>
               Inr (Some (NewNumericDate (time_Unix (int64_of_float v) 0)))
           | _ \<Rightarrow> Inl (ClaimNotFound ''exp'')))"

definition SubscriptionInfo_GetIssuedAt ::
  "(bytes \<Rightarrow> json_error + json_map) \<Rightarrow> SubscriptionInfo \<Rightarrow> claims_error + Time option" where
  "SubscriptionInfo_GetIssuedAt unmarshal_map s =
     (case parseJWT unmarshal_map (SI_SignedTransactionInfo s) of
        Inl err \<Rightarrow> Inl err
      | Inr claims \<Rightarrow>
          (case claims ''iat'' of
             Some (JFloat v) \<Rightarrow>
               Inr (Some (NewNumericDate (time_Unix (int64_of_float v) 0)))
           | _ \<Rightarrow> Inl (ClaimNotFound ''iat'')))"

definition SubscriptionInfo_GetNotBefore ::
  "(bytes \<Rightarrow> json_error + json_map) \<Rightarrow> SubscriptionInfo \<Rightarrow> claims_error + Time option" where
  "SubscriptionInfo_GetNotBefore unmarshal_map s =
     (case parseJWT unmarshal_map (SI_SignedTransactionInfo s) of
        Inl err \<Rightarrow> Inl err
      | Inr claims \<Rightarrow>
          (case claims ''nbf'' of
             Some (JFloat v) \<Rightarrow>
               Inr (Some (NewNumericDate (time_Unix (int64_of_float v) 0)))
           | _ \<Rightarrow> Inl (ClaimNotFound ''nbf'')))"

section \<open>Verification (JWT.go, client.go)\<close>

text \<open>
  What the verification functions take from outside the package: the JSON decoders
  for the types they decode into, and the RSA primitives.
\<close>

record lib =
  json_Unmarshal_map :: "bytes \<Rightarrow> json_error + json_map"
  json_Unmarshal_SubscriptionInfo :: "bytes \<Rightarrow> json_error + SubscriptionInfo"
  json_Unmarshal_RenewalInfo :: "bytes \<Rightarrow> json_error + JWSRenewalInfoDecodedPayload"
  json_Decode_AppleJWK :: "bytes \<Rightarrow> AppleJWK option \<times> json_error option"
  Crypto :: crypto

datatype verify_error =
    FailedToFetchAppleJWKs fetch_error
  | FailedToParse parse_error
  | KidNotFound
  | NilPointerDereference
  | FailedToGetPublicKey key_error
  | FailedToVerifyJWT jwt_error
  | InvalidJWT

text \<open>
  Each function takes the outcome \<^verbatim>\<open>http.Get\<close> would have, the current time, the envelope
  and the package-level variable, and returns its result with the variable. Where the
  source dereferences the pointer \<^verbatim>\<open>FetchAppleJWKs\<close> returned, a \<^verbatim>\<open>nil\<close> pointer is the
  run-time panic \<^const>\<open>NilPointerDereference\<close>.
\<close>

definition VerifyJWT ::
  "lib \<Rightarrow> net_error + http_Response \<Rightarrow> Time \<Rightarrow> string \<Rightarrow> AppleJWK option
     \<Rightarrow> (verify_error + unit) \<times> AppleJWK option" where
  "VerifyJWT L http_Get now jws AppleJWKs =
     (case FetchAppleJWKs (json_Decode_AppleJWK L) http_Get AppleJWKs of
        (Inl err, G) \<Rightarrow> (Inl (FailedToFetchAppleJWKs err), G)
      | (Inr jwk, G) \<Rightarrow>
      (case ParseUnverified (json_Unmarshal_map L) (json_Unmarshal_map L) jws of
        Inl err \<Rightarrow> (Inl (FailedToParse err), G)
      | Inr (token, parts) \<Rightarrow>
      (case Header token ''kid'' of
        Some (JString kid) \<Rightarrow>
          (case jwk of
            None \<Rightarrow> (Inl NilPointerDereference, G)
          | Some keys \<Rightarrow>
          (case GetAppleRSAPublicKey keys kid of
            Inl err \<Rightarrow> (Inl (FailedToGetPublicKey err), G)
          | Inr pubKey \<Rightarrow>
          (case ParseWithClaims (json_Unmarshal_map L) (Crypto L) (json_Unmarshal_map L)
                  MapClaims_GetExpirationTime MapClaims_GetNotBefore now jws
                  (\<lambda>token. case Method token of
                              SigningMethodRSA h \<Rightarrow> Inr pubKey
                            | _ \<Rightarrow> Inl (UnexpectedSigningMethod (Header token ''alg''))) of
            Inl err \<Rightarrow> (Inl (FailedToVerifyJWT err), G)
          | Inr parsedToken \<Rightarrow>
              if \<not> Valid parsedToken then (Inl InvalidJWT, G) else (Inr (), G))))
      | _ \<Rightarrow> (Inl KidNotFound, G))))"

definition VerifyJWSTransaction ::
  "lib \<Rightarrow> net_error + http_Response \<Rightarrow> Time \<Rightarrow> string \<Rightarrow> AppleJWK option
     \<Rightarrow> (verify_error + SubscriptionInfo) \<times> AppleJWK option" where
  "VerifyJWSTransaction L http_Get now jws AppleJWKs =
     (case FetchAppleJWKs (json_Decode_AppleJWK L) http_Get AppleJWKs of
        (Inl err, G) \<Rightarrow> (Inl (FailedToFetchAppleJWKs err), G)
      | (Inr jwk, G) \<Rightarrow>
      (case ParseUnverified (json_Unmarshal_map L) (json_Unmarshal_map L) jws of
        Inl err \<Rightarrow> (Inl (FailedToParse err), G)
      | Inr (token, parts) \<Rightarrow>
      (case Header token ''kid'' of
        Some (JString kid) \<Rightarrow>
          (case jwk of
            None \<Rightarrow> (Inl NilPointerDereference, G)
          | Some keys \<Rightarrow>
          (case GetAppleRSAPublicKey keys kid of
            Inl err \<Rightarrow> (Inl (FailedToGetPublicKey err), G)
          | Inr pubKey \<Rightarrow>
          (case ParseWithClaims (json_Unmarshal_map L) (Crypto L)
                  (json_Unmarshal_SubscriptionInfo L)
                  (SubscriptionInfo_GetExpirationTime (json_Unmarshal_map L))
                  (SubscriptionInfo_GetNotBefore (json_Unmarshal_map L)) now jws
                  (\<lambda>token. Inr pubKey) of
            Inl err \<Rightarrow> (Inl (FailedToVerifyJWT err), G)
          | Inr parsedToken \<Rightarrow> (Inr (Claims parsedToken), G))))
      | _ \<Rightarrow> (Inl KidNotFound, G))))"

definition VerifyJWSRenewalInfo ::
  "lib \<Rightarrow> net_error + http_Response \<Rightarrow> Time \<Rightarrow> string \<Rightarrow> AppleJWK option
     \<Rightarrow> (verify_error + JWSRenewalInfoDecodedPayload) \<times> AppleJWK option" where
  "VerifyJWSRenewalInfo L http_Get now jws AppleJWKs =
     (case FetchAppleJWKs (json_Decode_AppleJWK L) http_Get AppleJWKs of
        (Inl err, G) \<Rightarrow> (Inl (FailedToFetchAppleJWKs err), G)
      | (Inr jwk, G) \<Rightarrow>
      (case ParseUnverified (json_Unmarshal_map L) (json_Unmarshal_map L) jws of
        Inl err \<Rightarrow> (Inl (FailedToParse err), G)
      | Inr (token, parts) \<Rightarrow>
      (case Header token ''kid'' of
        Some (JString kid) \<Rightarrow>
          (case jwk of
            None \<Rightarrow> (Inl NilPointerDereference, G)
          | Some keys \<Rightarrow>
          (case GetAppleRSAPublicKey keys kid of
            Inl err \<Rightarrow> (Inl (FailedToGetPublicKey err), G)
          | Inr pubKey \<Rightarrow>
          (case ParseWithClaims (json_Unmarshal_map L) (Crypto L)
                  (json_Unmarshal_RenewalInfo L)
                  JWSRenewalInfoDecodedPayload_GetExpirationTime
                  JWSRenewalInfoDecodedPayload_GetNotBefore now jws
                  (\<lambda>token. Inr pubKey) of
            Inl err \<Rightarrow> (Inl (FailedToVerifyJWT err), G)
          | Inr parsedToken \<Rightarrow> (Inr (Claims parsedToken), G))))
      | _ \<Rightarrow> (Inl KidNotFound, G))))"

section \<open>Issuing the authorization token (JWT.go)\<close>

text \<open>
  What issuance takes from outside the package: the PEM and X.509 parsers, the JSON
  encoder and the ECDSA signing primitive, for a private key of some type \<open>'k\<close>. The
  signing primitive draws randomness; the parameter stands for the outcome of the one
  call made.
\<close>

record pem_Block =
  pem_Type :: string
  pem_Bytes :: bytes

datatype x509_error = ErrParseECPrivateKey

datatype sign_error =
    ErrMarshal json_error
  | ErrSign

record 'k issuer_lib =
  pem_Decode :: "bytes \<Rightarrow> pem_Block option"
  x509_ParseECPrivateKey :: "bytes \<Rightarrow> x509_error + 'k"
  json_Marshal :: "json_map \<Rightarrow> json_error + bytes"
  ecdsa_Sign :: "hash \<Rightarrow> 'k \<Rightarrow> string \<Rightarrow> bytes option"

definition Minute :: int where
  "Minute = 60 * 1000000000"

definition Time_Add :: "Time \<Rightarrow> int \<Rightarrow> Time" where
  "Time_Add t d = t + d"

definition NewWithClaims :: "SigningMethod \<Rightarrow> json_map \<Rightarrow> json_map Token" where
  "NewWithClaims method claims =
     \<lparr>Raw = [], Method = method,
      Header = [''typ'' \<mapsto> JString ''JWT'', ''alg'' \<mapsto> JString (Method_Alg method)],
      Claims = claims, Signature = [], Valid = False\<rparr>"

text \<open>
  \<^verbatim>\<open>SignedString\<close>: the header and the claims are encoded to JSON and to base64url and
  joined by a dot, that string is signed, and the encoded signature is appended. With
  an ECDSA private key only the ECDSA methods sign.
\<close>

definition SigningString :: "'k issuer_lib \<Rightarrow> json_map Token \<Rightarrow> sign_error + string" where
  "SigningString D t =
     (case json_Marshal D (Header t) of
        Inl err \<Rightarrow> Inl (ErrMarshal err)
      | Inr h \<Rightarrow>
          (case json_Marshal D (Claims t) of
             Inl err \<Rightarrow> Inl (ErrMarshal err)
           | Inr c \<Rightarrow> Inr (EncodeToString h @ ''.'' @ EncodeToString c)))"

definition Method_Sign ::
  "'k issuer_lib \<Rightarrow> SigningMethod \<Rightarrow> string \<Rightarrow> 'k \<Rightarrow> sign_error + bytes" where
  "Method_Sign D method signingString key =
     (case method of
        SigningMethodECDSA h \<Rightarrow>
          (case ecdsa_Sign D h key signingString of None \<Rightarrow> Inl ErrSign | Some sig \<Rightarrow> Inr sig)
      | _ \<Rightarrow> Inl ErrSign)"

definition SignedString :: "'k issuer_lib \<Rightarrow> json_map Token \<Rightarrow> 'k \<Rightarrow> sign_error + string" where
  "SignedString D t key =
     (case SigningString D t of
        Inl err \<Rightarrow> Inl err
      | Inr sstr \<Rightarrow>
          (case Method_Sign D (Method t) sstr key of
             Inl err \<Rightarrow> Inl err
           | Inr sig \<Rightarrow> Inr (sstr @ ''.'' @ EncodeToString sig)))"

datatype issue_error =
    InvalidPEMFormat
  | FailedToParseECPrivateKey x509_error
  | FailedToSignJWT sign_error

definition GenerateAuthorizationJWT ::
  "'k issuer_lib \<Rightarrow> Time \<Rightarrow> string \<Rightarrow> string \<Rightarrow> string \<Rightarrow> string \<Rightarrow> issue_error + string" where
  "GenerateAuthorizationJWT D now kid bid iss privateKeyStr =
     (case pem_Decode D (bytes_of privateKeyStr) of
        None \<Rightarrow> Inl InvalidPEMFormat
      | Some block \<Rightarrow>
          if pem_Type block \<noteq> ''PRIVATE KEY'' then Inl InvalidPEMFormat
          else (case x509_ParseECPrivateKey D (pem_Bytes block) of
            Inl err \<Rightarrow> Inl (FailedToParseECPrivateKey err)
          | Inr privateKey \<Rightarrow>
              (let claims = [''iss'' \<mapsto> JString iss,
                             ''iat'' \<mapsto> JNumber (Time_Unix now),
                             ''exp'' \<mapsto> JNumber (Time_Unix (Time_Add now (30 * Minute))),
                             ''aud'' \<mapsto> JString ''appstoreconnect-v1'',
                             ''bid'' \<mapsto> JString bid];
                   token = NewWithClaims (SigningMethodECDSA SHA256) claims;
                   token = token\<lparr>Header := (Header token)(''kid'' \<mapsto> JString kid)\<rparr>
               in (case SignedString D token privateKey of
                     Inl err \<Rightarrow> Inl (FailedToSignJWT err)
                   | Inr signedToken \<Rightarrow> Inr signedToken))))"

section \<open>Fixtures used by the concrete instances\<close>

definition jwk_fixture :: "string \<Rightarrow> AppleJWK" where
  "jwk_fixture e =
     \<lparr>Keys = [\<lparr>Kty = ''RSA'', Kid = ''ZZ99'', Use = ''sig'', Alg = ''RS256'', N = ''AQAB'', E = ''''\<rparr>,
              \<lparr>Kty = ''RSA'', Kid = ''AB12'', Use = ''sig'', Alg = ''RS256'', N = ''AQAB'', E = e\<rparr>]\<rparr>"

text \<open>
  Zero values of the payload structs, and stand-ins for the JSON decoder on the two
  payloads the instances use: the empty object \<^verbatim>\<open>{}\<close>, which decodes to the zero value,
  and the empty input, which is a syntax error.
\<close>

definition zero_SubscriptionInfo :: SubscriptionInfo where
  "zero_SubscriptionInfo =
     \<lparr>SI_Environment = [], SI_AppAppleID = 0, SI_BundleID = [], SI_ProductID = [],
      SI_Storefront = [], SI_StorefrontID = [], SI_OriginalTransactionID = [],
      SI_SubscriptionGroupID = [], SI_PurchaseDate = [], SI_OriginalPurchaseDate = [],
      SI_ExpirationDate = [], SI_IsInBillingRetryPeriod = None,
      SI_GracePeriodExpiresDate = None, SI_AutoRenewStatus = 0, SI_AutoRenewProductID = None,
      SI_IsUpgraded = None, SI_OfferType = None, SI_OfferIdentifier = None,
      SI_SignedTransactionInfo = [], SI_SignedRenewalInfo = []\<rparr>"

definition zero_RenewalInfo :: JWSRenewalInfoDecodedPayload where
  "zero_RenewalInfo =
     \<lparr>OriginalTransactionId = [], TransactionId = [], WebOrderLineItemId = [], BundleId = [],
      AppAccountToken = None, ProductId = [], Type = [], SubscriptionGroupIdentifier = [],
      Quantity = None, Price = None, Currency = [], Storefront = [], StorefrontId = [],
      EligibleWinBackOfferIds = [], OfferType = 0, OfferDiscountType = [],
      OriginalPurchaseDate = 0, PurchaseDate = 0, RecentSubscriptionStartDate = 0,
      IsInBillingRetryPeriod = False, GracePeriodExpiresDate = 0, AutoRenewStatus = 0,
      AutoRenewProductId = [], ExpirationIntent = 0, ExpiresDate = 0, IsUpgraded = False,
      RenewalDate = 0, RenewalPrice = 0, InAppOwnershipType = [], PriceIncreaseStatus = 0,
      RevocationDate = 0, RevocationReason = [], TransactionReason = [], SignedDate = 0,
      Environment = [], OfferIdentifier = []\<rparr>"

definition unmarshal_empty_object :: "'a \<Rightarrow> bytes \<Rightarrow> json_error + 'a" where
  "unmarshal_empty_object zero b = (if b = [123, 125] then Inr zero else Inl SyntaxError)"

text \<open>
  A stand-in for the decoder of the key directory on three bodies: \<^verbatim>\<open>{}\<close> decodes to a
  directory without keys; \<^verbatim>\<open>[]\<close> is well-formed JSON of the wrong type, for which
  \<^verbatim>\<open>encoding/json\<close> allocates the target, leaves it zero and reports a type error; any
  other body counts as a syntax error, reported before the target is touched.
\<close>

definition decode_jwks_stub :: "bytes \<Rightarrow> AppleJWK option \<times> json_error option" where
  "decode_jwks_stub body =
     (if body = bytes_of ''{}'' then (Some \<lparr>Keys = []\<rparr>, None)
      else if body = bytes_of ''[]'' then (Some \<lparr>Keys = []\<rparr>, Some UnmarshalTypeError)
      else (None, Some SyntaxError))"

text \<open>
  Envelope segments for the instances, in base64url: the headers
  \<^verbatim>\<open>{"alg":"ES256","kid":"AB12"}\<close> and \<^verbatim>\<open>{"alg":"RS256","kid":"AB12"}\<close>, and the payloads
  \<^verbatim>\<open>{"expiresDate":1000}\<close> (one second after the epoch),
  \<^verbatim>\<open>{"expiresDate":4102444800000}\<close> (the first day of 2100) and
  \<^verbatim>\<open>{"purchaseDate":1,"expiresDate":4102444800000}\<close>.
\<close>

definition header_ES256 :: string where
  "header_ES256 = ''eyJhbGciOiJFUzI1NiIsImtpZCI6IkFCMTIifQ''"

definition header_RS256 :: string where
  "header_RS256 = ''eyJhbGciOiJSUzI1NiIsImtpZCI6IkFCMTIifQ''"

definition payload_expires_1000 :: string where
  "payload_expires_1000 = ''eyJleHBpcmVzRGF0ZSI6MTAwMH0''"

definition payload_expires_2100 :: string where
  "payload_expires_2100 = ''eyJleHBpcmVzRGF0ZSI6NDEwMjQ0NDgwMDAwMH0''"

definition payload_purchase_2100 :: string where
  "payload_purchase_2100 = ''eyJwdXJjaGFzZURhdGUiOjEsImV4cGlyZXNEYXRlIjo0MTAyNDQ0ODAwMDAwfQ''"

text \<open>
  Stand-ins for the JSON decoder on these segments and on \<^verbatim>\<open>{}\<close>, each giving what
  \<^verbatim>\<open>encoding/json\<close> gives for the target type: the map of the members, the renewal
  payload with its \<^verbatim>\<open>expiresDate\<close> and \<^verbatim>\<open>purchaseDate\<close>, and the zero \<^verbatim>\<open>SubscriptionInfo\<close>,
  which has no field named \<^verbatim>\<open>expiresDate\<close>. The field \<^verbatim>\<open>purchaseDate\<close> of \<^verbatim>\<open>SubscriptionInfo\<close>
  is a string, so the number in the last payload is a type error for that target and
  for no other. Every other input counts as a syntax error.
\<close>

definition unmarshal_map_stub :: "bytes \<Rightarrow> json_error + json_map" where
  "unmarshal_map_stub b =
     (if Inr b = DecodeString header_ES256 then
        Inr [''alg'' \<mapsto> JString ''ES256'', ''kid'' \<mapsto> JString ''AB12'']
      else if Inr b = DecodeString header_RS256 then
        Inr [''alg'' \<mapsto> JString ''RS256'', ''kid'' \<mapsto> JString ''AB12'']
      else if b = bytes_of ''{}'' then Inr Map.empty
      else if Inr b = DecodeString payload_expires_1000 then
        Inr [''expiresDate'' \<mapsto> JFloat 1000]
      else if Inr b = DecodeString payload_expires_2100 then
        Inr [''expiresDate'' \<mapsto> JFloat 4102444800000]
      else if Inr b = DecodeString payload_purchase_2100 then
        Inr [''purchaseDate'' \<mapsto> JFloat 1, ''expiresDate'' \<mapsto> JFloat 4102444800000]
      else Inl SyntaxError)"

definition unmarshal_SubscriptionInfo_stub :: "bytes \<Rightarrow> json_error + SubscriptionInfo" where
  "unmarshal_SubscriptionInfo_stub b =
     (if b = bytes_of ''{}'' \<or> Inr b = DecodeString payload_expires_1000
         \<or> Inr b = DecodeString payload_expires_2100
      then Inr zero_SubscriptionInfo
      else if Inr b = DecodeString payload_purchase_2100 then Inl UnmarshalTypeError
      else Inl SyntaxError)"

definition unmarshal_RenewalInfo_stub :: "bytes \<Rightarrow> json_error + JWSRenewalInfoDecodedPayload" where
  "unmarshal_RenewalInfo_stub b =
     (if b = bytes_of ''{}'' then Inr zero_RenewalInfo
      else if Inr b = DecodeString payload_expires_1000 then
        Inr (zero_RenewalInfo\<lparr>ExpiresDate := 1000\<rparr>)
      else if Inr b = DecodeString payload_expires_2100 then
        Inr (zero_RenewalInfo\<lparr>ExpiresDate := 4102444800000\<rparr>)
      else if Inr b = DecodeString payload_purchase_2100 then
        Inr (zero_RenewalInfo\<lparr>PurchaseDate := 1, ExpiresDate := 4102444800000\<rparr>)
      else Inl SyntaxError)"

text \<open>
  The library stand-in takes the answer of the RSA primitives as a parameter: with
  \<open>True\<close> the signature at hand is one the primitive accepts.
\<close>

definition lib_stub :: "bool \<Rightarrow> lib" where
  "lib_stub accept =
     \<lparr>json_Unmarshal_map = unmarshal_map_stub,
      json_Unmarshal_SubscriptionInfo = unmarshal_SubscriptionInfo_stub,
      json_Unmarshal_RenewalInfo = unmarshal_RenewalInfo_stub,
      json_Decode_AppleJWK = decode_jwks_stub,
      Crypto = \<lparr>rsa_VerifyPKCS1v15 = (\<lambda>key h signingString sig. accept),
                rsa_VerifyPSS = (\<lambda>key h signingString sig. accept)\<rparr>\<rparr>"

text \<open>The current time of the instances: 2023-11-14 22:13:20 UTC, in nanoseconds.\<close>

definition now_2023 :: Time where
  "now_2023 = 1700000000 * 1000000000"

text \<open>
  Stand-ins for issuance: a key string the PEM parser takes for a \<^verbatim>\<open>PRIVATE KEY\<close> block,
  an X.509 parser that yields a key, a signing primitive that returns 64 zero bytes, and
  a JSON encoder for the two maps of the instance: the header
  \<^verbatim>\<open>{"alg":"ES256","kid":"2X9R4HXF34","typ":"JWT"}\<close> and the claims
  \<^verbatim>\<open>{"aud":"appstoreconnect-v1","bid":"com.example.testbundleid","exp":17000018\<close>
  \<^verbatim>\<open>00,"iat":1700000000,"iss":"57246542-96fe-1a63-e053-0824d011072a"}\<close>.
\<close>

definition issued_header :: bytes where
  "issued_header =
     [123, 34, 97, 108, 103, 34, 58, 34, 69, 83, 50, 53, 54, 34, 44, 34, 107, 105,
      100, 34, 58, 34, 50, 88, 57, 82, 52, 72, 88, 70, 51, 52, 34, 44, 34, 116, 121,
      112, 34, 58, 34, 74, 87, 84, 34, 125]"

definition issued_claims :: bytes where
  "issued_claims =
     [123, 34, 97, 117, 100, 34, 58, 34, 97, 112, 112, 115, 116, 111, 114, 101, 99,
      111, 110, 110, 101, 99, 116, 45, 118, 49, 34, 44, 34, 98, 105, 100, 34, 58, 34,
      99, 111, 109, 46, 101, 120, 97, 109, 112, 108, 101, 46, 116, 101, 115, 116, 98,
      117, 110, 100, 108, 101, 105, 100, 34, 44, 34, 101, 120, 112, 34, 58, 49, 55,
      48, 48, 48, 48, 49, 56, 48, 48, 44, 34, 105, 97, 116, 34, 58, 49, 55, 48, 48,
      48, 48, 48, 48, 48, 48, 44, 34, 105, 115, 115, 34, 58, 34, 53, 55, 50, 52, 54,
      53, 52, 50, 45, 57, 54, 102, 101, 45, 49, 97, 54, 51, 45, 101, 48, 53, 51, 45,
      48, 56, 50, 52, 100, 48, 49, 49, 48, 55, 50, 97, 34, 125]"

definition marshal_stub :: "json_map \<Rightarrow> json_error + bytes" where
  "marshal_stub m =
     (if m ''typ'' = Some (JString ''JWT'') \<and> m ''alg'' = Some (JString ''ES256'')
         \<and> m ''kid'' = Some (JString ''2X9R4HXF34'') then Inr issued_header
      else if m ''iss'' = Some (JString ''57246542-96fe-1a63-e053-0824d011072a'')
         \<and> m ''iat'' = Some (JNumber 1700000000) \<and> m ''exp'' = Some (JNumber 1700001800)
         \<and> m ''aud'' = Some (JString ''appstoreconnect-v1'')
         \<and> m ''bid'' = Some (JString ''com.example.testbundleid'') then Inr issued_claims
      else Inl UnsupportedTypeError)"

definition issuer_stub :: "unit issuer_lib" where
  "issuer_stub =
     \<lparr>pem_Decode = (\<lambda>b. if b = bytes_of ''key'' then Some \<lparr>pem_Type = ''PRIVATE KEY'', pem_Bytes = [48]\<rparr>
                         else None),
      x509_ParseECPrivateKey = (\<lambda>b. if b = [48] then Inr () else Inl ErrParseECPrivateKey),
      json_Marshal = marshal_stub,
      ecdsa_Sign = (\<lambda>h key signingString. Some (replicate 64 0))\<rparr>"

definition issued_token :: string where
  "issued_token =
     EncodeToString issued_header @ ''.'' @ EncodeToString issued_claims @ ''.''
       @ EncodeToString (replicate 64 0)"

section \<open>Properties\<close>

subsection \<open>Standard-library helpers on concrete inputs\<close>

lemma DecodeString_AQAB: "DecodeString ''AQAB'' = Inr [1, 0, 1]"
  by (simp add: DecodeString_def decodeMap_def)

lemma DecodeString_Aw: "DecodeString ''Aw'' = Inr [3]"
  by (simp add: DecodeString_def decodeMap_def)

lemma DecodeString_AQA: "DecodeString ''AQA'' = Inr [1, 0]"
  by (simp add: DecodeString_def decodeMap_def)

subsection \<open>Key reconstruction\<close>

lemma or_low_bits:
  fixes a x :: int
  assumes "0 \<le> x" "x < 2 ^ n"
  shows "push_bit n a OR x = a * 2 ^ n + x"
proof -
  have x: "take_bit n x = x"
    using assms by (simp add: take_bit_int_eq_self)
  have "push_bit n a AND take_bit n x = 0"
    by (rule bit_eqI) (auto simp: bit_simps)
  then have "push_bit n a AND x = 0"
    by (simp add: x)
  then have "push_bit n a + x = push_bit n a OR x"
    by (rule disjunctive_add_eq_or)
  then show ?thesis
    by (simp add: push_bit_eq_mult)
qed

lemma three_bytes_big_endian:
  fixes a b c :: byte
  shows "push_bit 16 (uint a) OR push_bit 8 (uint b) OR uint c
           = uint a * 65536 + uint b * 256 + uint c"
proof -
  have c: "0 \<le> uint c" "uint c < 2 ^ 8"
    using uint_lt2p [of c] by simp_all
  have b: "0 \<le> uint b" "uint b < 2 ^ 8"
    using uint_lt2p [of b] by simp_all
  have "push_bit 8 (uint b) OR uint c = uint b * 2 ^ 8 + uint c"
    using c by (rule or_low_bits)
  moreover have "push_bit 16 (uint a) OR (uint b * 2 ^ 8 + uint c)
                   = uint a * 2 ^ 16 + (uint b * 2 ^ 8 + uint c)"
  proof (rule or_low_bits)
    show "0 \<le> uint b * 2 ^ 8 + uint c" using b c by simp
    show "uint b * 2 ^ 8 + uint c < 2 ^ 16" using b c by simp
  qed
  ultimately show ?thesis
    by (simp add: or.assoc)
qed

lemma exponent_of_cases:
  "exponent_of eBytes =
     (if length eBytes = 3 then
        Some (uint (eBytes ! 0) * 65536 + uint (eBytes ! 1) * 256 + uint (eBytes ! 2))
      else if length eBytes = 1 then Some (uint (eBytes ! 0))
      else None)"
  by (simp add: exponent_of_def three_bytes_big_endian)

lemma lookup_key_skip:
  "\<forall>k \<in> set pre. Kid k \<noteq> kid \<Longrightarrow> lookup_key (pre @ rest) kid = lookup_key rest kid"
  by (induction pre) auto

text \<open>
  Claim C6. In \<^const>\<open>GetAppleRSAPublicKey\<close>, at the first directory entry whose key id
  matches and whose modulus and exponent decode from base64url: an exponent of exactly
  one byte gives that byte as the integer exponent; an exponent of exactly three bytes
  gives their big-endian value; every other length gives the error
  \<^const>\<open>UnexpectedExponentLength\<close> and no key.
\<close>

theorem GetAppleRSAPublicKey_exponent:
  assumes "\<forall>k \<in> set pre. Kid k \<noteq> kid" and "Kid key = kid"
    and "DecodeString (N key) = Inr nBytes" and "DecodeString (E key) = Inr eBytes"
  shows "GetAppleRSAPublicKey \<lparr>Keys = pre @ key # post\<rparr> kid =
     (if length eBytes = 1 then
        Inr \<lparr>rsa_N = SetBytes nBytes, rsa_E = uint (eBytes ! 0)\<rparr>
      else if length eBytes = 3 then
        Inr \<lparr>rsa_N = SetBytes nBytes,
             rsa_E = uint (eBytes ! 0) * 65536 + uint (eBytes ! 1) * 256 + uint (eBytes ! 2)\<rparr>
      else Inl UnexpectedExponentLength)"
  using assms by (simp add: GetAppleRSAPublicKey_def lookup_key_skip exponent_of_cases)

text \<open>
  The instances of the specification: the published exponent \<^verbatim>\<open>AQAB\<close> (bytes 1, 0, 1) is
  65537, \<^verbatim>\<open>Aw\<close> (the byte 3) is 3, and \<^verbatim>\<open>AQA\<close> (two bytes) is refused.
\<close>

theorem GetAppleRSAPublicKey_exponent_witness:
  "GetAppleRSAPublicKey (jwk_fixture ''AQAB'') ''AB12'' = Inr \<lparr>rsa_N = 65537, rsa_E = 65537\<rparr>
   \<and> GetAppleRSAPublicKey (jwk_fixture ''Aw'') ''AB12'' = Inr \<lparr>rsa_N = 65537, rsa_E = 3\<rparr>
   \<and> GetAppleRSAPublicKey (jwk_fixture ''AQA'') ''AB12'' = Inl UnexpectedExponentLength"
  using
    GetAppleRSAPublicKey_exponent
      [of "[\<lparr>Kty = ''RSA'', Kid = ''ZZ99'', Use = ''sig'', Alg = ''RS256'', N = ''AQAB'', E = ''''\<rparr>]"
          "''AB12''"
          "\<lparr>Kty = ''RSA'', Kid = ''AB12'', Use = ''sig'', Alg = ''RS256'', N = ''AQAB'', E = ''AQAB''\<rparr>"
          "[1, 0, 1]" "[1, 0, 1]" "[]"]
    GetAppleRSAPublicKey_exponent
      [of "[\<lparr>Kty = ''RSA'', Kid = ''ZZ99'', Use = ''sig'', Alg = ''RS256'', N = ''AQAB'', E = ''''\<rparr>]"
          "''AB12''"
          "\<lparr>Kty = ''RSA'', Kid = ''AB12'', Use = ''sig'', Alg = ''RS256'', N = ''AQAB'', E = ''Aw''\<rparr>"
          "[1, 0, 1]" "[3]" "[]"]
    GetAppleRSAPublicKey_exponent
      [of "[\<lparr>Kty = ''RSA'', Kid = ''ZZ99'', Use = ''sig'', Alg = ''RS256'', N = ''AQAB'', E = ''''\<rparr>]"
          "''AB12''"
          "\<lparr>Kty = ''RSA'', Kid = ''AB12'', Use = ''sig'', Alg = ''RS256'', N = ''AQAB'', E = ''AQA''\<rparr>"
          "[1, 0, 1]" "[1, 0]" "[]"]
  by (simp add: jwk_fixture_def DecodeString_AQAB DecodeString_Aw DecodeString_AQA SetBytes_def)

subsection \<open>Splitting at dots\<close>

lemma length_Split: "length (Split sep s) = Suc (length (filter (\<lambda>c. c = sep) s))"
  by (induction s) (auto split: list.splits)

lemma Split_no_sep: "sep \<notin> set s \<Longrightarrow> Split sep s = [s]"
  by (induction s) auto

lemma Split_append: "sep \<notin> set h \<Longrightarrow> Split sep (h @ sep # rest) = h # Split sep rest"
  by (induction h) auto

lemma Split_three:
  "sep \<notin> set h \<Longrightarrow> sep \<notin> set p \<Longrightarrow> sep \<notin> set s \<Longrightarrow>
     Split sep (h @ sep # p @ sep # s) = [h, p, s]"
  by (simp add: Split_append Split_no_sep)

lemma DecodeString_e30: "DecodeString ''e30'' = Inr [123, 125]"
  by (simp add: DecodeString_def decodeMap_def)

subsection \<open>Unverified decoding\<close>

lemma DecodeJWSTransaction_three:
  assumes "Split CHR ''.'' jws = [h, p, s]"
  shows "DecodeJWSTransaction u jws =
           (case DecodeString p of
              Inl err \<Rightarrow> Inl (FailedToDecodePayload err)
            | Inr payload \<Rightarrow>
                (case u payload of
                   Inl err \<Rightarrow> Inl (FailedToUnmarshalPayload err)
                 | Inr transaction \<Rightarrow> Inr transaction))"
  using assms by (simp add: DecodeJWSTransaction_def)

lemma JWSRenewalInfoDecoded_three:
  assumes "Split CHR ''.'' jws = [h, p, s]"
  shows "JWSRenewalInfoDecoded u jws =
           (case DecodeString p of
              Inl err \<Rightarrow> Inl (FailedToDecodePayload err)
            | Inr payload \<Rightarrow>
                (case u payload of
                   Inl err \<Rightarrow> Inl (FailedToUnmarshalPayload err)
                 | Inr transaction \<Rightarrow> Inr transaction))"
  using assms by (simp add: JWSRenewalInfoDecoded_def)

text \<open>
  Claim C5, as the code has it. The split step of \<^const>\<open>DecodeJWSTransaction\<close> and of
  \<^const>\<open>JWSRenewalInfoDecoded\<close> fails with the invalid-format error exactly when the
  input does not contain exactly two dots, that is when it does not split into exactly
  three segments; whether a segment is empty plays no part.
\<close>

theorem split_step_counts_segments_only:
  "(DecodeJWSTransaction u jws = Inl InvalidJWTFormat)
      = (length (filter (\<lambda>c. c = CHR ''.'') jws) \<noteq> 2)
   \<and> (JWSRenewalInfoDecoded v jws = Inl InvalidJWTFormat)
      = (length (filter (\<lambda>c. c = CHR ''.'') jws) \<noteq> 2)"
  by (auto simp: DecodeJWSTransaction_def JWSRenewalInfoDecoded_def Let_def length_Split
      split: sum.splits)

theorem split_step_counts_segments_only_witness:
  "DecodeJWSTransaction (unmarshal_empty_object zero_SubscriptionInfo) ''a.b'' = Inl InvalidJWTFormat
   \<and> JWSRenewalInfoDecoded (unmarshal_empty_object zero_RenewalInfo) ''a.b.c.d'' = Inl InvalidJWTFormat
   \<and> DecodeJWSTransaction (unmarshal_empty_object zero_SubscriptionInfo) ''a..c'' \<noteq> Inl InvalidJWTFormat"
  using
    split_step_counts_segments_only
      [of "unmarshal_empty_object zero_SubscriptionInfo" "''a.b''"
          "unmarshal_empty_object zero_RenewalInfo"]
    split_step_counts_segments_only
      [of "unmarshal_empty_object zero_SubscriptionInfo" "''a.b.c.d''"
          "unmarshal_empty_object zero_RenewalInfo"]
    split_step_counts_segments_only
      [of "unmarshal_empty_object zero_SubscriptionInfo" "''a..c''"
          "unmarshal_empty_object zero_RenewalInfo"]
  by simp

text \<open>
  The claim as stated fails: \<^verbatim>\<open>.e30.\<close> has three segments of which the first and the last
  are empty, the middle one is the base64url form of \<^verbatim>\<open>{}\<close>, and both decoders accept it
  and return the zero value of their payload.
\<close>

theorem empty_segments_accepted:
  "Split CHR ''.'' ''.e30.'' = [[], ''e30'', []]
   \<and> DecodeJWSTransaction (unmarshal_empty_object zero_SubscriptionInfo) ''.e30.''
        = Inr zero_SubscriptionInfo
   \<and> JWSRenewalInfoDecoded (unmarshal_empty_object zero_RenewalInfo) ''.e30.''
        = Inr zero_RenewalInfo"
  by (simp add: DecodeJWSTransaction_def JWSRenewalInfoDecoded_def DecodeString_e30
      unmarshal_empty_object_def)

text \<open>
  Claim C8. For an envelope of three dot-free segments, \<^const>\<open>DecodeJWSTransaction\<close> and
  \<^const>\<open>JWSRenewalInfoDecoded\<close> give the same result whatever the signature segment is,
  and when the payload segment decodes from base64url and from JSON they succeed with
  the decoded claim set.
\<close>

theorem decoding_ignores_signature:
  assumes "CHR ''.'' \<notin> set h" and "CHR ''.'' \<notin> set p"
    and "CHR ''.'' \<notin> set s1" and "CHR ''.'' \<notin> set s2"
  shows "DecodeJWSTransaction u (h @ ''.'' @ p @ ''.'' @ s1)
           = DecodeJWSTransaction u (h @ ''.'' @ p @ ''.'' @ s2)
       \<and> JWSRenewalInfoDecoded v (h @ ''.'' @ p @ ''.'' @ s1)
           = JWSRenewalInfoDecoded v (h @ ''.'' @ p @ ''.'' @ s2)
       \<and> (\<forall>b c. DecodeString p = Inr b \<and> u b = Inr c
             \<longrightarrow> DecodeJWSTransaction u (h @ ''.'' @ p @ ''.'' @ s1) = Inr c)
       \<and> (\<forall>b c. DecodeString p = Inr b \<and> v b = Inr c
             \<longrightarrow> JWSRenewalInfoDecoded v (h @ ''.'' @ p @ ''.'' @ s1) = Inr c)"
proof -
  have s1: "Split CHR ''.'' (h @ CHR ''.'' # p @ CHR ''.'' # s1) = [h, p, s1]"
    using assms by (simp add: Split_three)
  have s2: "Split CHR ''.'' (h @ CHR ''.'' # p @ CHR ''.'' # s2) = [h, p, s2]"
    using assms by (simp add: Split_three)
  show ?thesis
    using DecodeJWSTransaction_three [OF s1, of u] DecodeJWSTransaction_three [OF s2, of u]
      JWSRenewalInfoDecoded_three [OF s1, of v] JWSRenewalInfoDecoded_three [OF s2, of v]
    by simp
qed

theorem decoding_ignores_signature_witness:
  "DecodeJWSTransaction (unmarshal_empty_object zero_SubscriptionInfo) ''e30.e30.AAAA''
     = Inr zero_SubscriptionInfo
   \<and> DecodeJWSTransaction (unmarshal_empty_object zero_SubscriptionInfo) ''e30.e30.!!''
     = Inr zero_SubscriptionInfo
   \<and> JWSRenewalInfoDecoded (unmarshal_empty_object zero_RenewalInfo) ''e30.e30.AAAA''
     = Inr zero_RenewalInfo
   \<and> JWSRenewalInfoDecoded (unmarshal_empty_object zero_RenewalInfo) ''e30.e30.!!''
     = Inr zero_RenewalInfo"
proof -
  have dots: "CHR ''.'' \<notin> set ''e30''" "CHR ''.'' \<notin> set ''AAAA''" "CHR ''.'' \<notin> set ''!!''"
    by simp_all
  have payload: "DecodeString ''e30'' = Inr [123, 125]"
    by (rule DecodeString_e30)
  have tx: "unmarshal_empty_object zero_SubscriptionInfo [123, 125] = Inr zero_SubscriptionInfo"
    and ri: "unmarshal_empty_object zero_RenewalInfo [123, 125] = Inr zero_RenewalInfo"
    by (simp_all add: unmarshal_empty_object_def)
  from decoding_ignores_signature
         [OF dots(1) dots(1) dots(2) dots(3),
          of "unmarshal_empty_object zero_SubscriptionInfo"
             "unmarshal_empty_object zero_RenewalInfo"]
       payload tx ri
  show ?thesis
    by (elim conjE) simp
qed

subsection \<open>Fetching the key directory\<close>

text \<open>
  Claim C3. The status code of the response is never read: a response is treated the
  same with any status code as with 200, and a response with status 500 whose body is
  the JSON object \<^verbatim>\<open>{}\<close> is returned, and cached, as a directory without keys. A body
  the decoder rejects does give the decode error.
\<close>

theorem FetchAppleJWKs_ignores_status:
  "FetchAppleJWKs json_Decode (Inr \<lparr>StatusCode = code, Body = body\<rparr>) AppleJWKs
     = FetchAppleJWKs json_Decode (Inr \<lparr>StatusCode = 200, Body = body\<rparr>) AppleJWKs
   \<and> FetchAppleJWKs decode_jwks_stub (Inr \<lparr>StatusCode = 500, Body = bytes_of ''{}''\<rparr>) None
     = (Inr (Some \<lparr>Keys = []\<rparr>), Some \<lparr>Keys = []\<rparr>)
   \<and> fst (FetchAppleJWKs decode_jwks_stub (Inr \<lparr>StatusCode = 200, Body = bytes_of ''{''\<rparr>) None)
     = Inl (FailedToDecode SyntaxError)"
  by (simp add: FetchAppleJWKs_def decode_jwks_stub_def bytes_of_def split: option.split)

text \<open>
  Claim C4. A body of well-formed JSON of the wrong type makes the call fail with a
  decode error and leaves the allocated, empty directory in the package-level variable;
  the next call returns that directory as a success, without a fetch (here the
  transport would have failed).
\<close>

theorem FetchAppleJWKs_caches_failed_decode:
  "FetchAppleJWKs decode_jwks_stub (Inr \<lparr>StatusCode = 200, Body = bytes_of ''[]''\<rparr>) None
     = (Inl (FailedToDecode UnmarshalTypeError), Some \<lparr>Keys = []\<rparr>)
   \<and> FetchAppleJWKs decode_jwks_stub (Inl TransportError) (Some \<lparr>Keys = []\<rparr>)
     = (Inr (Some \<lparr>Keys = []\<rparr>), Some \<lparr>Keys = []\<rparr>)"
  by (simp add: FetchAppleJWKs_def decode_jwks_stub_def bytes_of_def)

subsection \<open>The library's parser on a three-segment envelope\<close>

lemma ParseUnverified_three:
  assumes "Split CHR ''.'' jws = [h, p, s]"
    and "DecodeString h = Inr hb" and "uh hb = Inr header"
    and "DecodeString p = Inr pb" and "uc pb = Inr claims"
    and "header ''alg'' = Some (JString alg)" and "GetSigningMethod alg = Some m"
  shows "ParseUnverified uh uc jws =
           Inr (\<lparr>Raw = jws, Method = m, Header = header, Claims = claims,
                 Signature = [], Valid = False\<rparr>, [h, p, s])"
  using assms by (simp add: ParseUnverified_def)

lemma ParseWithClaims_three:
  assumes "Split CHR ''.'' jws = [h, p, s]"
    and "DecodeString h = Inr hb" and "uh hb = Inr header"
    and "DecodeString p = Inr pb" and "uc pb = Inr claims"
    and "header ''alg'' = Some (JString alg)" and "GetSigningMethod alg = Some m"
    and "DecodeString s = Inr sig"
  shows "ParseWithClaims uh C uc ge gn now jws keyFunc =
           (case keyFunc \<lparr>Raw = jws, Method = m, Header = header, Claims = claims,
                          Signature = sig, Valid = False\<rparr> of
              Inl err \<Rightarrow> Inl (ErrTokenUnverifiable err)
            | Inr key \<Rightarrow>
                (case Method_Verify C m (h @ ''.'' @ p) sig key of
                   Some err \<Rightarrow> Inl (ErrTokenSignatureInvalid err)
                 | None \<Rightarrow>
                     (case Validate ge gn now claims of
                        [] \<Rightarrow> Inr \<lparr>Raw = jws, Method = m, Header = header, Claims = claims,
                                    Signature = sig, Valid = True\<rparr>
                      | err # errs \<Rightarrow> Inl (ErrTokenInvalidClaims (err # errs)))))"
  using assms
  by (simp add: ParseWithClaims_def ParseUnverified_def split: sum.split option.split list.split)

subsection \<open>The verification functions on a resolved envelope\<close>

text \<open>
  The envelope has three segments that decode, its header names a registered method and
  a key id, and the cached directory resolves the key id to a key.
\<close>

lemma VerifyJWT_resolved:
  assumes "Split CHR ''.'' jws = [h, p, s]"
    and "DecodeString h = Inr hb" and "json_Unmarshal_map L hb = Inr header"
    and "DecodeString p = Inr pb" and "json_Unmarshal_map L pb = Inr claims"
    and "header ''alg'' = Some (JString alg)" and "GetSigningMethod alg = Some m"
    and "DecodeString s = Inr sig"
    and "header ''kid'' = Some (JString kid)"
    and "GetAppleRSAPublicKey keys kid = Inr pubKey"
  shows "VerifyJWT L http_Get now jws (Some keys) =
           ((case m of
               SigningMethodRSA hs \<Rightarrow>
                 (case Method_Verify (Crypto L) m (h @ ''.'' @ p) sig pubKey of
                    Some err \<Rightarrow> Inl (FailedToVerifyJWT (ErrTokenSignatureInvalid err))
                  | None \<Rightarrow>
                      (case Validate MapClaims_GetExpirationTime MapClaims_GetNotBefore now claims of
                         [] \<Rightarrow> Inr ()
                       | err # errs \<Rightarrow> Inl (FailedToVerifyJWT (ErrTokenInvalidClaims (err # errs)))))
             | _ \<Rightarrow> Inl (FailedToVerifyJWT (ErrTokenUnverifiable
                          (UnexpectedSigningMethod (Some (JString alg)))))),
            Some keys)"
  using assms
  by (cases m)
    (simp_all add: VerifyJWT_def FetchAppleJWKs_def ParseWithClaims_def ParseUnverified_def
      split: sum.split option.split list.split)

lemma VerifyJWSTransaction_resolved:
  assumes "Split CHR ''.'' jws = [h, p, s]"
    and "DecodeString h = Inr hb" and "json_Unmarshal_map L hb = Inr header"
    and "DecodeString p = Inr pb" and "json_Unmarshal_map L pb = Inr claims"
    and "header ''alg'' = Some (JString alg)" and "GetSigningMethod alg = Some m"
    and "DecodeString s = Inr sig"
    and "header ''kid'' = Some (JString kid)"
    and "GetAppleRSAPublicKey keys kid = Inr pubKey"
    and "json_Unmarshal_SubscriptionInfo L pb = Inr si"
  shows "VerifyJWSTransaction L http_Get now jws (Some keys) =
           ((case Method_Verify (Crypto L) m (h @ ''.'' @ p) sig pubKey of
               Some err \<Rightarrow> Inl (FailedToVerifyJWT (ErrTokenSignatureInvalid err))
             | None \<Rightarrow>
                 (case Validate (SubscriptionInfo_GetExpirationTime (json_Unmarshal_map L))
                         (SubscriptionInfo_GetNotBefore (json_Unmarshal_map L)) now si of
                    [] \<Rightarrow> Inr si
                  | err # errs \<Rightarrow> Inl (FailedToVerifyJWT (ErrTokenInvalidClaims (err # errs))))),
            Some keys)"
  using assms
  by (simp add: VerifyJWSTransaction_def FetchAppleJWKs_def ParseWithClaims_def
      ParseUnverified_def split: sum.split option.split list.split)

lemma VerifyJWSRenewalInfo_resolved:
  assumes "Split CHR ''.'' jws = [h, p, s]"
    and "DecodeString h = Inr hb" and "json_Unmarshal_map L hb = Inr header"
    and "DecodeString p = Inr pb" and "json_Unmarshal_map L pb = Inr claims"
    and "header ''alg'' = Some (JString alg)" and "GetSigningMethod alg = Some m"
    and "DecodeString s = Inr sig"
    and "header ''kid'' = Some (JString kid)"
    and "GetAppleRSAPublicKey keys kid = Inr pubKey"
    and "json_Unmarshal_RenewalInfo L pb = Inr ri"
  shows "VerifyJWSRenewalInfo L http_Get now jws (Some keys) =
           ((case Method_Verify (Crypto L) m (h @ ''.'' @ p) sig pubKey of
               Some err \<Rightarrow> Inl (FailedToVerifyJWT (ErrTokenSignatureInvalid err))
             | None \<Rightarrow>
                 (case Validate JWSRenewalInfoDecodedPayload_GetExpirationTime
                         JWSRenewalInfoDecodedPayload_GetNotBefore now ri of
                    [] \<Rightarrow> Inr ri
                  | err # errs \<Rightarrow> Inl (FailedToVerifyJWT (ErrTokenInvalidClaims (err # errs))))),
            Some keys)"
  using assms
  by (simp add: VerifyJWSRenewalInfo_def FetchAppleJWKs_def ParseWithClaims_def
      ParseUnverified_def split: sum.split option.split list.split)

subsection \<open>The instances: segments, directory and library stand-ins\<close>

lemma DecodeString_header_ES256:
  "DecodeString header_ES256 =
     Inr [123, 34, 97, 108, 103, 34, 58, 34, 69, 83, 50, 53, 54, 34, 44, 34, 107, 105, 100, 34, 58, 34, 65, 66, 49, 50, 34, 125]"
  by (simp add: header_ES256_def DecodeString_def decodeMap_def)

lemma DecodeString_header_RS256:
  "DecodeString header_RS256 =
     Inr [123, 34, 97, 108, 103, 34, 58, 34, 82, 83, 50, 53, 54, 34, 44, 34, 107, 105, 100, 34, 58, 34, 65, 66, 49, 50, 34, 125]"
  by (simp add: header_RS256_def DecodeString_def decodeMap_def)

lemma DecodeString_payload_expires_1000:
  "DecodeString payload_expires_1000 =
     Inr [123, 34, 101, 120, 112, 105, 114, 101, 115, 68, 97, 116, 101, 34, 58, 49, 48, 48, 48, 125]"
  by (simp add: payload_expires_1000_def DecodeString_def decodeMap_def)

lemma DecodeString_payload_expires_2100:
  "DecodeString payload_expires_2100 =
     Inr [123, 34, 101, 120, 112, 105, 114, 101, 115, 68, 97, 116, 101, 34, 58, 52, 49, 48, 50, 52, 52, 52, 56, 48, 48, 48, 48, 48, 125]"
  by (simp add: payload_expires_2100_def DecodeString_def decodeMap_def)

lemma DecodeString_AAAA: "DecodeString ''AAAA'' = Inr [0, 0, 0]"
  by (simp add: DecodeString_def decodeMap_def)

lemma jwk_fixture_AB12:
  "GetAppleRSAPublicKey (jwk_fixture ''AQAB'') ''AB12''
     = Inr \<lparr>rsa_N = 65537, rsa_E = 65537\<rparr>"
  by (simp add: GetAppleRSAPublicKey_def jwk_fixture_def DecodeString_AQAB exponent_of_def
      SetBytes_def)

lemma GetSigningMethod_ES256: "GetSigningMethod ''ES256'' = Some (SigningMethodECDSA SHA256)"
  by (simp add: GetSigningMethod_def signingMethods_def)

lemma GetSigningMethod_RS256: "GetSigningMethod ''RS256'' = Some (SigningMethodRSA SHA256)"
  by (simp add: GetSigningMethod_def signingMethods_def)

lemma no_dot_in_segments:
  "CHR ''.'' \<notin> set header_ES256" "CHR ''.'' \<notin> set header_RS256"
  "CHR ''.'' \<notin> set payload_expires_1000" "CHR ''.'' \<notin> set payload_expires_2100"
  by (simp_all add: header_ES256_def header_RS256_def payload_expires_1000_def
      payload_expires_2100_def)

lemma Split_ES256_envelope:
  "Split CHR ''.'' (header_ES256 @ ''.e30.AAAA'') = [header_ES256, ''e30'', ''AAAA'']"
  using Split_three [of "CHR ''.''" header_ES256 "''e30''" "''AAAA''"] no_dot_in_segments
  by simp


lemma Split_RS256_envelope_2100:
  "Split CHR ''.'' (header_RS256 @ ''.'' @ payload_expires_2100 @ ''.AAAA'')
     = [header_RS256, payload_expires_2100, ''AAAA'']"
  using Split_three [of "CHR ''.''" header_RS256 payload_expires_2100 "''AAAA''"]
    no_dot_in_segments
  by simp

lemma stub_header_ES256:
  "json_Unmarshal_map (lib_stub accept)
     [123, 34, 97, 108, 103, 34, 58, 34, 69, 83, 50, 53, 54, 34, 44, 34, 107, 105, 100, 34,
      58, 34, 65, 66, 49, 50, 34, 125]
     = Inr [''alg'' \<mapsto> JString ''ES256'', ''kid'' \<mapsto> JString ''AB12'']"
  by (simp add: lib_stub_def unmarshal_map_stub_def DecodeString_header_ES256)

lemma stub_header_RS256:
  "json_Unmarshal_map (lib_stub accept)
     [123, 34, 97, 108, 103, 34, 58, 34, 82, 83, 50, 53, 54, 34, 44, 34, 107, 105, 100, 34,
      58, 34, 65, 66, 49, 50, 34, 125]
     = Inr [''alg'' \<mapsto> JString ''RS256'', ''kid'' \<mapsto> JString ''AB12'']"
  by (simp add: lib_stub_def unmarshal_map_stub_def DecodeString_header_ES256
      DecodeString_header_RS256)

lemma stub_payload_empty:
  "json_Unmarshal_map (lib_stub accept) [123, 125] = Inr Map.empty"
  "json_Unmarshal_SubscriptionInfo (lib_stub accept) [123, 125] = Inr zero_SubscriptionInfo"
  "json_Unmarshal_RenewalInfo (lib_stub accept) [123, 125] = Inr zero_RenewalInfo"
  by (simp_all add: lib_stub_def unmarshal_map_stub_def unmarshal_SubscriptionInfo_stub_def
      unmarshal_RenewalInfo_stub_def DecodeString_header_ES256 DecodeString_header_RS256
      bytes_of_def)


lemma stub_payload_2100:
  "json_Unmarshal_map (lib_stub accept)
     [123, 34, 101, 120, 112, 105, 114, 101, 115, 68, 97, 116, 101, 34, 58, 52, 49, 48, 50,
      52, 52, 52, 56, 48, 48, 48, 48, 48, 125]
     = Inr [''expiresDate'' \<mapsto> JFloat 4102444800000]"
  "json_Unmarshal_SubscriptionInfo (lib_stub accept)
     [123, 34, 101, 120, 112, 105, 114, 101, 115, 68, 97, 116, 101, 34, 58, 52, 49, 48, 50,
      52, 52, 52, 56, 48, 48, 48, 48, 48, 125]
     = Inr zero_SubscriptionInfo"
  "json_Unmarshal_RenewalInfo (lib_stub accept)
     [123, 34, 101, 120, 112, 105, 114, 101, 115, 68, 97, 116, 101, 34, 58, 52, 49, 48, 50,
      52, 52, 52, 56, 48, 48, 48, 48, 48, 125]
     = Inr (zero_RenewalInfo\<lparr>ExpiresDate := 4102444800000\<rparr>)"
  by (simp_all add: lib_stub_def unmarshal_map_stub_def unmarshal_SubscriptionInfo_stub_def
      unmarshal_RenewalInfo_stub_def DecodeString_header_ES256 DecodeString_header_RS256
      DecodeString_payload_expires_1000 DecodeString_payload_expires_2100 bytes_of_def)


text \<open>
  The accessors of a \<^verbatim>\<open>SubscriptionInfo\<close> whose \<^verbatim>\<open>SignedTransactionInfo\<close> is empty fail,
  since the empty string is not a three-segment token.
\<close>

lemma Validate_zero_SubscriptionInfo:
  "Validate (SubscriptionInfo_GetExpirationTime u) (SubscriptionInfo_GetNotBefore u) now
       zero_SubscriptionInfo
     = [AccessorError (FailedToParseJWT (ErrTokenMalformed InvalidNumberOfSegments)),
        AccessorError (FailedToParseJWT (ErrTokenMalformed InvalidNumberOfSegments))]"
  by (simp add: Validate_def verifyExpiresAt_def verifyNotBefore_def
      SubscriptionInfo_GetExpirationTime_def SubscriptionInfo_GetNotBefore_def parseJWT_def
      ParseUnverified_def zero_SubscriptionInfo_def)

lemma Validate_RenewalInfo:
  "Validate JWSRenewalInfoDecodedPayload_GetExpirationTime
       JWSRenewalInfoDecodedPayload_GetNotBefore now ri
     = (if ExpiresDate ri = 0 then [AccessorError ExpirationTimeNotSet]
        else if now < ToNumericDate (ExpiresDate ri) then []
        else [ErrTokenExpired])"
  by (simp add: Validate_def verifyExpiresAt_def verifyNotBefore_def
      JWSRenewalInfoDecodedPayload_GetExpirationTime_def
      JWSRenewalInfoDecodedPayload_GetNotBefore_def)


lemma ToNumericDate_2100: "ToNumericDate 4102444800000 = 4102444800000000000"
  by (simp add: ToNumericDate_def NewNumericDate_def time_UnixMilli_def)




lemma cached_directory:
  "FetchAppleJWKs json_Decode http_Get (Some keys) = (Inr (Some keys), Some keys)"
  by (simp add: FetchAppleJWKs_def)

subsection \<open>The verification functions after the directory is obtained\<close>

text \<open>
  The directory comes from the cache or from a fetch; the envelope is as before. The
  payload has to decode into the claims type of the function at hand, and into no
  other.
\<close>

lemma VerifyJWSTransaction_typed:
  assumes "FetchAppleJWKs (json_Decode_AppleJWK L) http_Get AppleJWKs = (Inr (Some keys), G)"
    and "Split CHR ''.'' jws = [h, p, s]"
    and "DecodeString h = Inr hb" and "json_Unmarshal_map L hb = Inr header"
    and "DecodeString p = Inr pb" and "json_Unmarshal_map L pb = Inr claims"
    and "header ''alg'' = Some (JString alg)" and "GetSigningMethod alg = Some m"
    and "header ''kid'' = Some (JString kid)"
    and "GetAppleRSAPublicKey keys kid = Inr pubKey"
  shows "VerifyJWSTransaction L http_Get now jws AppleJWKs =
           ((case json_Unmarshal_SubscriptionInfo L pb of
               Inl err \<Rightarrow> Inl (FailedToVerifyJWT (ParseError (ErrTokenMalformed
                                 (CouldNotJSONDecodeClaim err))))
             | Inr si \<Rightarrow>
             (case DecodeString s of
               Inl err \<Rightarrow> Inl (FailedToVerifyJWT (CouldNotDecodeSignature err))
             | Inr sig \<Rightarrow>
             (case Method_Verify (Crypto L) m (h @ ''.'' @ p) sig pubKey of
               Some err \<Rightarrow> Inl (FailedToVerifyJWT (ErrTokenSignatureInvalid err))
             | None \<Rightarrow>
                 (case Validate (SubscriptionInfo_GetExpirationTime (json_Unmarshal_map L))
                         (SubscriptionInfo_GetNotBefore (json_Unmarshal_map L)) now si of
                    [] \<Rightarrow> Inr si
                  | err # errs \<Rightarrow>
                      Inl (FailedToVerifyJWT (ErrTokenInvalidClaims (err # errs))))))),
            G)"
  using assms
  by (simp add: VerifyJWSTransaction_def ParseWithClaims_def ParseUnverified_def
      split: sum.split option.split list.split)

lemma VerifyJWSRenewalInfo_typed:
  assumes "FetchAppleJWKs (json_Decode_AppleJWK L) http_Get AppleJWKs = (Inr (Some keys), G)"
    and "Split CHR ''.'' jws = [h, p, s]"
    and "DecodeString h = Inr hb" and "json_Unmarshal_map L hb = Inr header"
    and "DecodeString p = Inr pb" and "json_Unmarshal_map L pb = Inr claims"
    and "header ''alg'' = Some (JString alg)" and "GetSigningMethod alg = Some m"
    and "header ''kid'' = Some (JString kid)"
    and "GetAppleRSAPublicKey keys kid = Inr pubKey"
  shows "VerifyJWSRenewalInfo L http_Get now jws AppleJWKs =
           ((case json_Unmarshal_RenewalInfo L pb of
               Inl err \<Rightarrow> Inl (FailedToVerifyJWT (ParseError (ErrTokenMalformed
                                 (CouldNotJSONDecodeClaim err))))
             | Inr ri \<Rightarrow>
             (case DecodeString s of
               Inl err \<Rightarrow> Inl (FailedToVerifyJWT (CouldNotDecodeSignature err))
             | Inr sig \<Rightarrow>
             (case Method_Verify (Crypto L) m (h @ ''.'' @ p) sig pubKey of
               Some err \<Rightarrow> Inl (FailedToVerifyJWT (ErrTokenSignatureInvalid err))
             | None \<Rightarrow>
                 (case Validate JWSRenewalInfoDecodedPayload_GetExpirationTime
                         JWSRenewalInfoDecodedPayload_GetNotBefore now ri of
                    [] \<Rightarrow> Inr ri
                  | err # errs \<Rightarrow>
                      Inl (FailedToVerifyJWT (ErrTokenInvalidClaims (err # errs))))))),
            G)"
  using assms
  by (simp add: VerifyJWSRenewalInfo_def ParseWithClaims_def ParseUnverified_def
      split: sum.split option.split list.split)


subsection \<open>The two typed entry points, step by step\<close>

lemma entry_points_cases:
  obtains (early) e G where "\<forall>err. e \<noteq> FailedToVerifyJWT err"
      and "VerifyJWSTransaction L http_Get now jws AppleJWKs = (Inl e, G)"
      and "VerifyJWSRenewalInfo L http_Get now jws AppleJWKs = (Inl e, G)"
  | (library) key G where
      "VerifyJWSTransaction L http_Get now jws AppleJWKs =
         (case ParseWithClaims (json_Unmarshal_map L) (Crypto L)
                 (json_Unmarshal_SubscriptionInfo L)
                 (SubscriptionInfo_GetExpirationTime (json_Unmarshal_map L))
                 (SubscriptionInfo_GetNotBefore (json_Unmarshal_map L)) now jws
                 (\<lambda>token. Inr key) of
            Inl err \<Rightarrow> (Inl (FailedToVerifyJWT err), G)
          | Inr parsedToken \<Rightarrow> (Inr (Claims parsedToken), G))"
      and "VerifyJWSRenewalInfo L http_Get now jws AppleJWKs =
         (case ParseWithClaims (json_Unmarshal_map L) (Crypto L)
                 (json_Unmarshal_RenewalInfo L)
                 JWSRenewalInfoDecodedPayload_GetExpirationTime
                 JWSRenewalInfoDecodedPayload_GetNotBefore now jws
                 (\<lambda>token. Inr key) of
            Inl err \<Rightarrow> (Inl (FailedToVerifyJWT err), G)
          | Inr parsedToken \<Rightarrow> (Inr (Claims parsedToken), G))"
proof -
  obtain r G where F: "FetchAppleJWKs (json_Decode_AppleJWK L) http_Get AppleJWKs = (r, G)"
    by (cases "FetchAppleJWKs (json_Decode_AppleJWK L) http_Get AppleJWKs")
  show ?thesis
  proof (cases r)
    case (Inl err)
        have "\<forall>err'. FailedToFetchAppleJWKs err \<noteq> FailedToVerifyJWT err'"
          and "VerifyJWSTransaction L http_Get now jws AppleJWKs = (Inl (FailedToFetchAppleJWKs err), G)"
          and "VerifyJWSRenewalInfo L http_Get now jws AppleJWKs = (Inl (FailedToFetchAppleJWKs err), G)"
          using F Inl
          by (simp_all add: VerifyJWSTransaction_def VerifyJWSRenewalInfo_def)
        then show ?thesis
          by (rule early)
  next
    case (Inr jwk)
    note jwk = this
    show ?thesis
    proof (cases "ParseUnverified (json_Unmarshal_map L) (json_Unmarshal_map L) jws")
      case (Inl err)
        have "\<forall>err'. FailedToParse err \<noteq> FailedToVerifyJWT err'"
          and "VerifyJWSTransaction L http_Get now jws AppleJWKs = (Inl (FailedToParse err), G)"
          and "VerifyJWSRenewalInfo L http_Get now jws AppleJWKs = (Inl (FailedToParse err), G)"
          using F jwk Inl
          by (simp_all add: VerifyJWSTransaction_def VerifyJWSRenewalInfo_def)
        then show ?thesis
          by (rule early)
    next
      case (Inr tp)
      then obtain token parts where P:
        "ParseUnverified (json_Unmarshal_map L) (json_Unmarshal_map L) jws = Inr (token, parts)"
        by (cases tp) simp
      show ?thesis
      proof (cases "\<exists>kid. Header token ''kid'' = Some (JString kid)")
        case False
        have "\<forall>err'. KidNotFound \<noteq> FailedToVerifyJWT err'"
          and "VerifyJWSTransaction L http_Get now jws AppleJWKs = (Inl (KidNotFound), G)"
          and "VerifyJWSRenewalInfo L http_Get now jws AppleJWKs = (Inl (KidNotFound), G)"
          using F jwk P False
          by (auto simp: VerifyJWSTransaction_def VerifyJWSRenewalInfo_def
              split: option.splits json.splits)
        then show ?thesis
          by (rule early)
      next
        case True
        then obtain kid where K: "Header token ''kid'' = Some (JString kid)" by blast
        show ?thesis
        proof (cases jwk)
          case None
        have "\<forall>err'. NilPointerDereference \<noteq> FailedToVerifyJWT err'"
          and "VerifyJWSTransaction L http_Get now jws AppleJWKs = (Inl (NilPointerDereference), G)"
          and "VerifyJWSRenewalInfo L http_Get now jws AppleJWKs = (Inl (NilPointerDereference), G)"
          using F jwk P K None
          by (simp_all add: VerifyJWSTransaction_def VerifyJWSRenewalInfo_def)
        then show ?thesis
          by (rule early)
        next
          case (Some keys)
          show ?thesis
          proof (cases "GetAppleRSAPublicKey keys kid")
            case (Inl err)
        have "\<forall>err'. FailedToGetPublicKey err \<noteq> FailedToVerifyJWT err'"
          and "VerifyJWSTransaction L http_Get now jws AppleJWKs = (Inl (FailedToGetPublicKey err), G)"
          and "VerifyJWSRenewalInfo L http_Get now jws AppleJWKs = (Inl (FailedToGetPublicKey err), G)"
          using F jwk P K Some Inl
          by (simp_all add: VerifyJWSTransaction_def VerifyJWSRenewalInfo_def)
        then show ?thesis
          by (rule early)
          next
            case (Inr key)
            with F jwk P K Some
            have "VerifyJWSTransaction L http_Get now jws AppleJWKs =
               (case ParseWithClaims (json_Unmarshal_map L) (Crypto L)
                       (json_Unmarshal_SubscriptionInfo L)
                       (SubscriptionInfo_GetExpirationTime (json_Unmarshal_map L))
                       (SubscriptionInfo_GetNotBefore (json_Unmarshal_map L)) now jws
                       (\<lambda>token. Inr key) of
                  Inl err \<Rightarrow> (Inl (FailedToVerifyJWT err), G)
                | Inr parsedToken \<Rightarrow> (Inr (Claims parsedToken), G))"
              and "VerifyJWSRenewalInfo L http_Get now jws AppleJWKs =
               (case ParseWithClaims (json_Unmarshal_map L) (Crypto L)
                       (json_Unmarshal_RenewalInfo L)
                       JWSRenewalInfoDecodedPayload_GetExpirationTime
                       JWSRenewalInfoDecodedPayload_GetNotBefore now jws
                       (\<lambda>token. Inr key) of
                  Inl err \<Rightarrow> (Inl (FailedToVerifyJWT err), G)
                | Inr parsedToken \<Rightarrow> (Inr (Claims parsedToken), G))"
              by (simp_all add: VerifyJWSTransaction_def VerifyJWSRenewalInfo_def)
            then show ?thesis
              by (rule library)
          qed
        qed
      qed
    qed
  qed
qed

lemma ParseWithClaims_shapes:
  fixes uc1 :: "bytes \<Rightarrow> json_error + 'a" and uc2 :: "bytes \<Rightarrow> json_error + 'b"
  assumes "\<forall>je. ParseWithClaims uh C uc1 ge1 gn1 now jws (\<lambda>token. Inr key)
             \<noteq> Inl (ParseError (ErrTokenMalformed (CouldNotJSONDecodeClaim je)))"
    and "\<forall>je. ParseWithClaims uh C uc2 ge2 gn2 now jws (\<lambda>token. Inr key)
             \<noteq> Inl (ParseError (ErrTokenMalformed (CouldNotJSONDecodeClaim je)))"
    and "\<forall>errs. e \<noteq> ErrTokenInvalidClaims errs"
  shows "(ParseWithClaims uh C uc1 ge1 gn1 now jws (\<lambda>token. Inr key) = Inl e)
           = (ParseWithClaims uh C uc2 ge2 gn2 now jws (\<lambda>token. Inr key) = Inl e)"
proof (cases "length (Split CHR ''.'' jws) \<noteq> 3")
  case True
  then show ?thesis by (simp add: ParseWithClaims_def ParseUnverified_def)
next
  case three: False
  show ?thesis
  proof (cases "DecodeString (Split CHR ''.'' jws ! 0)")
    case (Inl err)
    with three show ?thesis by (simp add: ParseWithClaims_def ParseUnverified_def)
  next
    case hb: (Inr headerBytes)
    show ?thesis
    proof (cases "uh headerBytes")
      case (Inl err)
      with three hb show ?thesis by (simp add: ParseWithClaims_def ParseUnverified_def)
    next
      case hd: (Inr header)
      show ?thesis
      proof (cases "DecodeString (Split CHR ''.'' jws ! 1)")
        case (Inl err)
        with three hb hd show ?thesis by (simp add: ParseWithClaims_def ParseUnverified_def)
      next
        case pb: (Inr claimBytes)
        from assms(1) three hb hd pb obtain c1 where c1: "uc1 claimBytes = Inr c1"
          by (cases "uc1 claimBytes") (auto simp: ParseWithClaims_def ParseUnverified_def)
        from assms(2) three hb hd pb obtain c2 where c2: "uc2 claimBytes = Inr c2"
          by (cases "uc2 claimBytes") (auto simp: ParseWithClaims_def ParseUnverified_def)
        show ?thesis
        proof (cases "\<exists>alg m. header ''alg'' = Some (JString alg) \<and> GetSigningMethod alg = Some m")
          case False
          with three hb hd pb c1 c2 show ?thesis
            by (auto simp: ParseWithClaims_def ParseUnverified_def
                split: option.splits json.splits)
        next
          case True
          then obtain alg m where alg: "header ''alg'' = Some (JString alg)"
            and m: "GetSigningMethod alg = Some m" by blast
          show ?thesis
          proof (cases "DecodeString (Split CHR ''.'' jws ! 2)")
            case (Inl err)
            with three hb hd pb c1 c2 alg m show ?thesis
              by (simp add: ParseWithClaims_def ParseUnverified_def)
          next
            case sg: (Inr sig)
            show ?thesis
            proof (cases "Method_Verify C m (Split CHR ''.'' jws ! 0 @ ''.'' @ Split CHR ''.'' jws ! 1) sig key")
              case (Some err)
              with three hb hd pb c1 c2 alg m sg show ?thesis
                by (simp add: ParseWithClaims_def ParseUnverified_def)
            next
              case None
              with three hb hd pb c1 c2 alg m sg assms(3) show ?thesis
                by (auto simp: ParseWithClaims_def ParseUnverified_def split: list.splits)
            qed
          qed
        qed
      qed
    qed
  qed
qed

subsection \<open>The algorithm declared in the header\<close>

lemma Method_Verify_other_family:
  assumes "\<forall>hs. m \<noteq> SigningMethodRSA hs" and "\<forall>hs. m \<noteq> SigningMethodRSAPSS hs"
  shows "Method_Verify C m text sig key =
           Some (if m = SigningMethodNone then NoneSignatureTypeDisallowedError
                 else ErrInvalidKeyType)"
  using assms by (cases m) simp_all

text \<open>
  Claim C1. The envelope has three segments that decode, its header names a key id
  that the cached directory resolves to an RSA key, and it declares a registered
  algorithm outside the two RSA families. \<^const>\<open>VerifyJWT\<close> refuses it in its key function,
  with the unexpected-signing-method error. The key functions of
  \<^const>\<open>VerifyJWSTransaction\<close> and \<^const>\<open>VerifyJWSRenewalInfo\<close> return the RSA key without looking
  at the method, so the key reaches the verification of the declared method in the
  library, which refuses it by its type: the two calls fail with the library's
  signature-invalid error, not with the error of a guard.
\<close>

theorem algorithm_guard_only_in_VerifyJWT:
  assumes "Split CHR ''.'' jws = [h, p, s]"
    and "DecodeString h = Inr hb" and "json_Unmarshal_map L hb = Inr header"
    and "DecodeString p = Inr pb" and "json_Unmarshal_map L pb = Inr claims"
    and "header ''alg'' = Some (JString alg)" and "GetSigningMethod alg = Some m"
    and "DecodeString s = Inr sig"
    and "header ''kid'' = Some (JString kid)"
    and "GetAppleRSAPublicKey keys kid = Inr pubKey"
    and "json_Unmarshal_SubscriptionInfo L pb = Inr si"
    and "json_Unmarshal_RenewalInfo L pb = Inr ri"
    and "\<forall>hs. m \<noteq> SigningMethodRSA hs" and "\<forall>hs. m \<noteq> SigningMethodRSAPSS hs"
  shows "VerifyJWT L http_Get now jws (Some keys)
           = (Inl (FailedToVerifyJWT (ErrTokenUnverifiable
                    (UnexpectedSigningMethod (Some (JString alg))))),
              Some keys)
       \<and> VerifyJWSTransaction L http_Get now jws (Some keys)
           = (Inl (FailedToVerifyJWT (ErrTokenSignatureInvalid
                    (if m = SigningMethodNone then NoneSignatureTypeDisallowedError
                     else ErrInvalidKeyType))),
              Some keys)
       \<and> VerifyJWSRenewalInfo L http_Get now jws (Some keys)
           = (Inl (FailedToVerifyJWT (ErrTokenSignatureInvalid
                    (if m = SigningMethodNone then NoneSignatureTypeDisallowedError
                     else ErrInvalidKeyType))),
              Some keys)"
proof -
  have "VerifyJWT L http_Get now jws (Some keys)
          = (Inl (FailedToVerifyJWT (ErrTokenUnverifiable
                   (UnexpectedSigningMethod (Some (JString alg))))),
             Some keys)"
    using VerifyJWT_resolved [OF assms(1-10), of http_Get now] assms(13)
    by (cases m) simp_all
  moreover note VerifyJWSTransaction_resolved [OF assms(1-11), of http_Get now]
    VerifyJWSRenewalInfo_resolved [OF assms(1-10) assms(12), of http_Get now]
    Method_Verify_other_family [OF assms(13,14), of "Crypto L" "h @ ''.'' @ p" sig pubKey]
  ultimately show ?thesis
    by simp
qed

text \<open>
  The instance: the header declares \<^verbatim>\<open>ES256\<close> and the key id \<^verbatim>\<open>AB12\<close>, the payload is \<^verbatim>\<open>{}\<close>;
  the outcome is the same whatever the RSA primitives would answer.
\<close>

theorem algorithm_guard_only_in_VerifyJWT_witness:
  "VerifyJWT (lib_stub True) (Inl TransportError) now_2023 (header_ES256 @ ''.e30.AAAA'')
       (Some (jwk_fixture ''AQAB''))
     = (Inl (FailedToVerifyJWT (ErrTokenUnverifiable
              (UnexpectedSigningMethod (Some (JString ''ES256''))))),
        Some (jwk_fixture ''AQAB''))
   \<and> VerifyJWSTransaction (lib_stub True) (Inl TransportError) now_2023
       (header_ES256 @ ''.e30.AAAA'') (Some (jwk_fixture ''AQAB''))
     = (Inl (FailedToVerifyJWT (ErrTokenSignatureInvalid ErrInvalidKeyType)),
        Some (jwk_fixture ''AQAB''))
   \<and> VerifyJWSRenewalInfo (lib_stub True) (Inl TransportError) now_2023
       (header_ES256 @ ''.e30.AAAA'') (Some (jwk_fixture ''AQAB''))
     = (Inl (FailedToVerifyJWT (ErrTokenSignatureInvalid ErrInvalidKeyType)),
        Some (jwk_fixture ''AQAB''))"
proof -
  have alg: "[''alg'' \<mapsto> JString ''ES256'', ''kid'' \<mapsto> JString ''AB12''] ''alg''
               = Some (JString ''ES256'')"
    and kid: "[''alg'' \<mapsto> JString ''ES256'', ''kid'' \<mapsto> JString ''AB12''] ''kid''
               = Some (JString ''AB12'')"
    by simp_all
  have other: "\<forall>hs. SigningMethodECDSA SHA256 \<noteq> SigningMethodRSA hs"
    "\<forall>hs. SigningMethodECDSA SHA256 \<noteq> SigningMethodRSAPSS hs"
    by simp_all
  show ?thesis
    using algorithm_guard_only_in_VerifyJWT
      [OF Split_ES256_envelope DecodeString_header_ES256 stub_header_ES256 [of True]
          DecodeString_e30 stub_payload_empty(1) [of True] alg GetSigningMethod_ES256
          DecodeString_AAAA kid jwk_fixture_AB12 stub_payload_empty(2) [of True]
          stub_payload_empty(3) [of True] other, of "Inl TransportError" now_2023]
    by simp
qed

lemma stub_accepts_primitive:
  "rsa_VerifyPKCS1v15 (Crypto (lib_stub True)) key h text sig"
  by (simp add: lib_stub_def)

subsection \<open>Expiry\<close>




subsection \<open>The two typed entry points\<close>

text \<open>
  The claim C9 as stated fails. On the envelope with the payload
  \<^verbatim>\<open>{"expiresDate":4102444800000}\<close> and an accepted signature, \<^const>\<open>VerifyJWSRenewalInfo\<close>
  succeeds and \<^const>\<open>VerifyJWSTransaction\<close> fails: the payload decodes into both shapes, but
  the validator reads each shape through its own accessors.
\<close>

theorem entry_points_disagree:
  "fst (VerifyJWSRenewalInfo (lib_stub True) (Inl TransportError) now_2023
         (header_RS256 @ ''.'' @ payload_expires_2100 @ ''.AAAA'') (Some (jwk_fixture ''AQAB'')))
     = Inr (zero_RenewalInfo\<lparr>ExpiresDate := 4102444800000\<rparr>)
   \<and> fst (VerifyJWSTransaction (lib_stub True) (Inl TransportError) now_2023
         (header_RS256 @ ''.'' @ payload_expires_2100 @ ''.AAAA'') (Some (jwk_fixture ''AQAB'')))
     = Inl (FailedToVerifyJWT (ErrTokenInvalidClaims
              [AccessorError (FailedToParseJWT (ErrTokenMalformed InvalidNumberOfSegments)),
               AccessorError (FailedToParseJWT (ErrTokenMalformed InvalidNumberOfSegments))]))"
proof -
  have alg: "[''alg'' \<mapsto> JString ''RS256'', ''kid'' \<mapsto> JString ''AB12''] ''alg''
               = Some (JString ''RS256'')"
    and kid: "[''alg'' \<mapsto> JString ''RS256'', ''kid'' \<mapsto> JString ''AB12''] ''kid''
               = Some (JString ''AB12'')"
    by simp_all
  note env = Split_RS256_envelope_2100 DecodeString_header_RS256 stub_header_RS256 [of True]
    DecodeString_payload_expires_2100 stub_payload_2100(1) [of True] alg
    GetSigningMethod_RS256 DecodeString_AAAA kid jwk_fixture_AB12
  show ?thesis
    using
      VerifyJWSRenewalInfo_resolved [OF env stub_payload_2100(3) [of True],
        of "Inl TransportError" now_2023]
      VerifyJWSTransaction_resolved [OF env stub_payload_2100(2) [of True],
        of "Inl TransportError" now_2023]
    by (simp add: stub_accepts_primitive Validate_RenewalInfo Validate_zero_SubscriptionInfo
        ToNumericDate_2100 zero_RenewalInfo_def now_2023_def)
qed

text \<open>
  Claim C9, as the code has it. The two entry points have the same effect on the
  cached directory, and they fail alike, with the same error, in every step before
  the call of the library's \<^verbatim>\<open>ParseWithClaims\<close>: fetching the directory, parsing the
  envelope without verification, reading the key id and resolving the key. In that
  call the payload is decoded into the claims type of the entry point, the signature
  is checked, and the claims are validated through the accessors of the type. Unless
  one of the two fails in decoding the payload into its type, they also fail alike at
  every error other than an invalid-claims error, so in particular at the signature.
\<close>

theorem entry_points_agree_outside_shape:
  "snd (VerifyJWSTransaction L http_Get now jws AppleJWKs)
     = snd (VerifyJWSRenewalInfo L http_Get now jws AppleJWKs)
   \<and> ((\<forall>err. e \<noteq> FailedToVerifyJWT err) \<longrightarrow>
        (fst (VerifyJWSTransaction L http_Get now jws AppleJWKs) = Inl e)
          = (fst (VerifyJWSRenewalInfo L http_Get now jws AppleJWKs) = Inl e))
   \<and> ((\<forall>je. fst (VerifyJWSTransaction L http_Get now jws AppleJWKs)
               \<noteq> Inl (FailedToVerifyJWT (ParseError (ErrTokenMalformed
                         (CouldNotJSONDecodeClaim je)))))
        \<and> (\<forall>je. fst (VerifyJWSRenewalInfo L http_Get now jws AppleJWKs)
               \<noteq> Inl (FailedToVerifyJWT (ParseError (ErrTokenMalformed
                         (CouldNotJSONDecodeClaim je)))))
        \<and> (\<forall>errs. e' \<noteq> FailedToVerifyJWT (ErrTokenInvalidClaims errs)) \<longrightarrow>
        (fst (VerifyJWSTransaction L http_Get now jws AppleJWKs) = Inl e')
          = (fst (VerifyJWSRenewalInfo L http_Get now jws AppleJWKs) = Inl e'))"
proof (cases rule: entry_points_cases [of L http_Get now jws AppleJWKs])
  case (early e0 G)
  then show ?thesis by simp
next
  case (library key G)
  let ?tx = "ParseWithClaims (json_Unmarshal_map L) (Crypto L)
               (json_Unmarshal_SubscriptionInfo L)
               (SubscriptionInfo_GetExpirationTime (json_Unmarshal_map L))
               (SubscriptionInfo_GetNotBefore (json_Unmarshal_map L)) now jws
               (\<lambda>token. Inr key)"
  let ?ri = "ParseWithClaims (json_Unmarshal_map L) (Crypto L)
               (json_Unmarshal_RenewalInfo L)
               JWSRenewalInfoDecodedPayload_GetExpirationTime
               JWSRenewalInfoDecodedPayload_GetNotBefore now jws
               (\<lambda>token. Inr key)"
  have tx: "fst (VerifyJWSTransaction L http_Get now jws AppleJWKs) = Inl x
              \<longleftrightarrow> (\<exists>err. x = FailedToVerifyJWT err \<and> ?tx = Inl err)" for x
    unfolding library(1) by (cases ?tx) auto
  have ri: "fst (VerifyJWSRenewalInfo L http_Get now jws AppleJWKs) = Inl x
              \<longleftrightarrow> (\<exists>err. x = FailedToVerifyJWT err \<and> ?ri = Inl err)" for x
    unfolding library(2) by (cases ?ri) auto
  have cache: "snd (VerifyJWSTransaction L http_Get now jws AppleJWKs)
                 = snd (VerifyJWSRenewalInfo L http_Get now jws AppleJWKs)"
    unfolding library by (cases ?tx; cases ?ri) simp_all
  have before: "(\<forall>err. e \<noteq> FailedToVerifyJWT err) \<longrightarrow>
        (fst (VerifyJWSTransaction L http_Get now jws AppleJWKs) = Inl e)
          = (fst (VerifyJWSRenewalInfo L http_Get now jws AppleJWKs) = Inl e)"
    by (auto simp: tx ri)
  have inside: "(fst (VerifyJWSTransaction L http_Get now jws AppleJWKs) = Inl e')
          = (fst (VerifyJWSRenewalInfo L http_Get now jws AppleJWKs) = Inl e')"
    if d1: "\<forall>je. fst (VerifyJWSTransaction L http_Get now jws AppleJWKs)
               \<noteq> Inl (FailedToVerifyJWT (ParseError (ErrTokenMalformed
                         (CouldNotJSONDecodeClaim je))))"
      and d2: "\<forall>je. fst (VerifyJWSRenewalInfo L http_Get now jws AppleJWKs)
               \<noteq> Inl (FailedToVerifyJWT (ParseError (ErrTokenMalformed
                         (CouldNotJSONDecodeClaim je))))"
      and v: "\<forall>errs. e' \<noteq> FailedToVerifyJWT (ErrTokenInvalidClaims errs)"
  proof -
    from d1 have t1: "\<forall>je. ?tx \<noteq> Inl (ParseError (ErrTokenMalformed (CouldNotJSONDecodeClaim je)))"
      by (simp add: tx)
    from d2 have t2: "\<forall>je. ?ri \<noteq> Inl (ParseError (ErrTokenMalformed (CouldNotJSONDecodeClaim je)))"
      by (simp add: ri)
    show ?thesis
    proof (cases "\<exists>err. e' = FailedToVerifyJWT err")
      case False
      then show ?thesis by (auto simp: tx ri)
    next
      case True
      then obtain err where err: "e' = FailedToVerifyJWT err" by blast
      with v have "\<forall>errs. err \<noteq> ErrTokenInvalidClaims errs" by simp
      from ParseWithClaims_shapes [OF t1 t2 this] err show ?thesis
        by (simp add: tx ri)
    qed
  qed
  from cache before inside show ?thesis
    by blast
qed

text \<open>
  Two instances. When the fetch fails, both entry points report the fetch failure.
  When the RSA primitive rejects the signature of an envelope whose payload decodes
  into both shapes, both report the signature failure.
\<close>

theorem entry_points_agree_outside_shape_witness:
  "fst (VerifyJWSTransaction (lib_stub True) (Inl TransportError) now_2023 ''a.b'' None)
     = Inl (FailedToFetchAppleJWKs (FailedToFetch TransportError))
   \<and> fst (VerifyJWSRenewalInfo (lib_stub True) (Inl TransportError) now_2023 ''a.b'' None)
     = Inl (FailedToFetchAppleJWKs (FailedToFetch TransportError))
   \<and> fst (VerifyJWSTransaction (lib_stub False) (Inl TransportError) now_2023
         (header_RS256 @ ''.'' @ payload_expires_2100 @ ''.AAAA'') (Some (jwk_fixture ''AQAB'')))
     = Inl (FailedToVerifyJWT (ErrTokenSignatureInvalid ErrVerification))
   \<and> fst (VerifyJWSRenewalInfo (lib_stub False) (Inl TransportError) now_2023
         (header_RS256 @ ''.'' @ payload_expires_2100 @ ''.AAAA'') (Some (jwk_fixture ''AQAB'')))
     = Inl (FailedToVerifyJWT (ErrTokenSignatureInvalid ErrVerification))"
proof -
  have tx0: "fst (VerifyJWSTransaction (lib_stub True) (Inl TransportError) now_2023 ''a.b'' None)
               = Inl (FailedToFetchAppleJWKs (FailedToFetch TransportError))"
    by (simp add: VerifyJWSTransaction_def FetchAppleJWKs_def)
  have ne: "\<forall>err. FailedToFetchAppleJWKs (FailedToFetch TransportError) \<noteq> FailedToVerifyJWT err"
    by simp
  from entry_points_agree_outside_shape
         [of "lib_stub True" "Inl TransportError" now_2023 "''a.b''" None
             "FailedToFetchAppleJWKs (FailedToFetch TransportError)"]
       ne tx0
  have ri0: "fst (VerifyJWSRenewalInfo (lib_stub True) (Inl TransportError) now_2023 ''a.b'' None)
               = Inl (FailedToFetchAppleJWKs (FailedToFetch TransportError))"
    by blast
  have alg: "[''alg'' \<mapsto> JString ''RS256'', ''kid'' \<mapsto> JString ''AB12''] ''alg''
               = Some (JString ''RS256'')"
    and kid: "[''alg'' \<mapsto> JString ''RS256'', ''kid'' \<mapsto> JString ''AB12''] ''kid''
               = Some (JString ''AB12'')"
    by simp_all
  note env = cached_directory Split_RS256_envelope_2100 DecodeString_header_RS256
    stub_header_RS256 [of False] DecodeString_payload_expires_2100
    stub_payload_2100(1) [of False] alg GetSigningMethod_RS256 kid jwk_fixture_AB12
  have rejects: "\<not> rsa_VerifyPKCS1v15 (Crypto (lib_stub False)) k hs t g" for k hs t g
    by (simp add: lib_stub_def)
  have tx1: "fst (VerifyJWSTransaction (lib_stub False) (Inl TransportError) now_2023
         (header_RS256 @ ''.'' @ payload_expires_2100 @ ''.AAAA'') (Some (jwk_fixture ''AQAB'')))
     = Inl (FailedToVerifyJWT (ErrTokenSignatureInvalid ErrVerification))"
    using VerifyJWSTransaction_typed [OF env, of "Inl TransportError" now_2023]
    by (simp add: stub_payload_2100(2) DecodeString_AAAA rejects)
  have ri1: "fst (VerifyJWSRenewalInfo (lib_stub False) (Inl TransportError) now_2023
         (header_RS256 @ ''.'' @ payload_expires_2100 @ ''.AAAA'') (Some (jwk_fixture ''AQAB'')))
     = Inl (FailedToVerifyJWT (ErrTokenSignatureInvalid ErrVerification))"
  proof -
    have "\<forall>errs. FailedToVerifyJWT (ErrTokenSignatureInvalid ErrVerification)
             \<noteq> FailedToVerifyJWT (ErrTokenInvalidClaims errs)"
      by simp
    moreover have "\<forall>je. fst (VerifyJWSTransaction (lib_stub False) (Inl TransportError) now_2023
         (header_RS256 @ ''.'' @ payload_expires_2100 @ ''.AAAA'') (Some (jwk_fixture ''AQAB'')))
       \<noteq> Inl (FailedToVerifyJWT (ParseError (ErrTokenMalformed (CouldNotJSONDecodeClaim je))))"
      using tx1 by simp
    moreover have "\<forall>je. fst (VerifyJWSRenewalInfo (lib_stub False) (Inl TransportError) now_2023
         (header_RS256 @ ''.'' @ payload_expires_2100 @ ''.AAAA'') (Some (jwk_fixture ''AQAB'')))
       \<noteq> Inl (FailedToVerifyJWT (ParseError (ErrTokenMalformed (CouldNotJSONDecodeClaim je))))"
      using VerifyJWSRenewalInfo_typed [OF env, of "Inl TransportError" now_2023]
      by (simp add: stub_payload_2100(3) DecodeString_AAAA rejects)
    ultimately show ?thesis
      using entry_points_agree_outside_shape
         [of "lib_stub False" "Inl TransportError" now_2023
             "header_RS256 @ ''.'' @ payload_expires_2100 @ ''.AAAA''"
             "Some (jwk_fixture ''AQAB'')" _
             "FailedToVerifyJWT (ErrTokenSignatureInvalid ErrVerification)"]
        tx1
      by blast
  qed
  from tx0 ri0 tx1 ri1 show ?thesis
    by blast
qed

subsection \<open>Base64url encoding and decoding\<close>

lemma of_char_encodeChar:
  "n < 64 \<Longrightarrow> (of_char (encodeChar n) :: nat) =
     (if n < 26 then n + 65 else if n < 52 then n + 71 else if n < 62 then n - 4
      else if n = 62 then 45 else 95)"
  by (simp add: encodeChar_def)

lemma decodeMap_encodeChar: "n < 64 \<Longrightarrow> decodeMap (encodeChar n) = Some n"
  by (auto simp: decodeMap_def of_char_encodeChar Let_def)

lemma encodeChar_not_newline:
  "n < 64 \<Longrightarrow> of_char (encodeChar n) \<noteq> (10::nat) \<and> of_char (encodeChar n) \<noteq> (13::nat)"
  by (auto simp: of_char_encodeChar)

lemma encodeChar_not_dot: "n < 64 \<Longrightarrow> encodeChar n \<noteq> CHR ''.''"
proof
  assume n: "n < 64" and "encodeChar n = CHR ''.''"
  then have "(of_char (encodeChar n) :: nat) = of_char CHR ''.''" by simp
  with n show False by (simp add: of_char_encodeChar split: if_splits)
qed
lemma word_low_byte_2: "(of_nat (a * 256 + b) :: 8 word) = of_nat b" 
  unfolding word_of_nat_eq_iff by (simp add: take_bit_eq_mod)
lemma word_low_byte_3: "(of_nat (a * 65536 + b * 256 + c) :: 8 word) = of_nat c" 
proof -
  have "(a * 65536 + b * 256 + c) mod 256 = (c + (a * 256 + b) * 256) mod 256"
    by (simp add: algebra_simps)
  also have "\<dots> = c mod 256"
    by (rule mod_mult_self1)
  finally show ?thesis
    unfolding word_of_nat_eq_iff take_bit_eq_mod by simp
qed
lemma sextet_sum_1g: "A * 64 + A' * 16 = (A * 4 + A') * (16::nat)"
  by (simp add: algebra_simps)
lemma sextet_sum_2g: "(A * 64 + (A' * 16 + B)) * 64 + B' * 4 = ((A * 4 + A') * 256 + (B * 16 + B')) * (4::nat)"
  by (simp add: algebra_simps)
lemma sextet_sum_3g: "((A * 64 + (A' * 16 + B)) * 64 + (B' * 4 + C)) * 64 + C'
           = (A * 4 + A') * 65536 + (B * 16 + B') * 256 + (C * 64 + (C'::nat))"
  by (simp add: algebra_simps)
lemma sextet_sum_1: "(a::nat) div 4 * 64 + a mod 4 * 16 = a * 16"
  using sextet_sum_1g [of "a div 4" "a mod 4"] by (simp only: div_mult_mod_eq)
lemma sextet_sum_2: "((a::nat) div 4 * 64 + (a mod 4 * 16 + b div 16)) * 64 + b mod 16 * 4 = (a * 256 + b) * 4"
  using sextet_sum_2g [of "a div 4" "a mod 4" "b div 16" "b mod 16"] by (simp only: div_mult_mod_eq)
lemma sextet_sum_3: "(((a::nat) div 4 * 64 + (a mod 4 * 16 + b div 16)) * 64 + (b mod 16 * 4 + c div 64)) * 64 + c mod 64 = a * 65536 + b * 256 + c"
  using sextet_sum_3g [of "a div 4" "a mod 4" "b div 16" "b mod 16" "c div 64" "c mod 64"] by (simp only: div_mult_mod_eq)
lemma high_byte: "b < 256 \<Longrightarrow> c < 256 \<Longrightarrow> ((a::nat) * 65536 + b * 256 + c) div 65536 = a"
proof -
  assume "b < 256" "c < 256"
  then have "b * 256 + c < 65536" by simp
  then have "(b * 256 + c + a * 65536) div 65536 = a" by simp
  then show ?thesis by (simp add: add.commute add.left_commute)
qed
lemma high_bytes: "c < 256 \<Longrightarrow> ((a::nat) * 65536 + b * 256 + c) div 256 = a * 256 + b"
proof -
  assume "c < 256"
  then have "(c + (a * 256 + b) * 256) div 256 = a * 256 + b" by simp
  moreover have "a * 65536 + b * 256 + c = c + (a * 256 + b) * 256" by (simp add: algebra_simps)
  ultimately show ?thesis by simp
qed

lemma high_byte_2: "b < 256 \<Longrightarrow> ((a::nat) * 256 + b) * 4 div 1024 = a"
proof -
  assume "b < 256"
  then have "(b + a * 256) div 256 = a" by simp
  moreover have "(a * 256 + b) * 4 div 1024 = (b + a * 256) div 256" by simp
  ultimately show ?thesis by simp
qed

lemma drop_two_bits: "((a::nat) * 256 + b) * 4 div 4 = a * 256 + b"
  by simp

lemma decode_encode_nat:
  "\<forall>n \<in> set ns. n < 256 \<Longrightarrow> decodeQuanta (encodeQuanta ns) = Some (map of_nat ns)"
proof (induction ns rule: encodeQuanta.induct)
  case 1
  show ?case by simp
next
  case (2 a)
  show ?case by (simp add: sextet_sum_1)
next
  case (3 a b)
  then have b: "b < 256" by simp
  have "decodeQuanta (encodeQuanta [a, b])
          = Some [of_nat (((a div 4 * 64 + (a mod 4 * 16 + b div 16)) * 64 + b mod 16 * 4) div 1024),
                  of_nat (((a div 4 * 64 + (a mod 4 * 16 + b div 16)) * 64 + b mod 16 * 4) div 4)]"
    by (simp only: encodeQuanta.simps decodeQuanta.simps)
  also have "\<dots> = Some [of_nat ((a * 256 + b) * 4 div 1024), of_nat ((a * 256 + b) * 4 div 4)]"
    by (simp only: sextet_sum_2)
  also have "\<dots> = Some (map of_nat [a, b])"
    using b by (simp only: high_byte_2 drop_two_bits word_low_byte_2 list.map)
  finally show ?case .
next
  case (4 a b c rest)
  then have b: "b < 256" and c: "c < 256"
    and IH: "decodeQuanta (encodeQuanta rest) = Some (map of_nat rest)"
    by simp_all
  have "decodeQuanta (encodeQuanta (a # b # c # rest))
          = Some (of_nat ((((a div 4 * 64 + (a mod 4 * 16 + b div 16)) * 64
                            + (b mod 16 * 4 + c div 64)) * 64 + c mod 64) div 65536)
                # of_nat ((((a div 4 * 64 + (a mod 4 * 16 + b div 16)) * 64
                            + (b mod 16 * 4 + c div 64)) * 64 + c mod 64) div 256)
                # of_nat (((a div 4 * 64 + (a mod 4 * 16 + b div 16)) * 64
                            + (b mod 16 * 4 + c div 64)) * 64 + c mod 64)
                # map of_nat rest)"
    by (simp only: encodeQuanta.simps decodeQuanta.simps IH option.case)
  also have "\<dots> = Some (of_nat ((a * 65536 + b * 256 + c) div 65536)
                # of_nat ((a * 65536 + b * 256 + c) div 256)
                # of_nat (a * 65536 + b * 256 + c) # map of_nat rest)"
    by (simp only: sextet_sum_3)
  also have "\<dots> = Some (map of_nat (a # b # c # rest))"
    using b c by (simp only: high_byte high_bytes word_low_byte_2 word_low_byte_3 list.map)
  finally show ?case .
qed

lemma sextets_encode: "\<forall>n \<in> set ns. n < 64 \<Longrightarrow> sextets (map encodeChar ns) = Some ns"
  by (induction ns) (simp_all add: decodeMap_encodeChar encodeChar_not_newline)

lemma encodeQuanta_bound: "\<forall>b \<in> set bs. b < 256 \<Longrightarrow> \<forall>n \<in> set (encodeQuanta bs). n < 64"
proof (induction bs rule: encodeQuanta.induct)
  case 1 show ?case by simp
next
  case (2 a)
  then have "a < 256" by simp
  then have "a div 4 < 64" "a mod 4 * 16 < 64" by arith+
  then show ?case by simp
next
  case (3 a b)
  then have "a < 256" "b < 256" by simp_all
  then have "a div 4 < 64" "a mod 4 * 16 + b div 16 < 64" "b mod 16 * 4 < 64" by arith+
  then show ?case by simp
next
  case (4 a b c rest) 
  then have "a < 256" "b < 256" "c < 256"
    and IH: "\<forall>n \<in> set (encodeQuanta rest). n < 64" by simp_all
  then have "a div 4 < 64" "a mod 4 * 16 + b div 16 < 64" "b mod 16 * 4 + c div 64 < 64"
    "c mod 64 < 64" by arith+
  with IH show ?case by simp
qed

lemma unat_byte_bound: "\<forall>n \<in> set (map unat (bs :: bytes)). n < 256"
proof -
  have "unat b < 256" for b :: byte using unsigned_less [of b, where 'a = nat] by simp
  then show ?thesis by simp
qed

lemma DecodeString_EncodeToString: "DecodeString (EncodeToString bs) = Inr bs"
  using decode_encode_nat [OF unat_byte_bound [of bs]]
    sextets_encode [OF encodeQuanta_bound [OF unat_byte_bound [of bs]]]
  by (simp add: DecodeString_def EncodeToString_def comp_def)

lemma no_dot_EncodeToString: "CHR ''.'' \<notin> set (EncodeToString bs)"
proof
  assume "CHR ''.'' \<in> set (EncodeToString bs)"
  then obtain n where "n \<in> set (encodeQuanta (map unat bs))" and "encodeChar n = CHR ''.''"
    by (auto simp: EncodeToString_def)
  with encodeQuanta_bound [OF unat_byte_bound [of bs]] encodeChar_not_dot [of n]
  show False by blast
qed

subsection \<open>Issuance\<close>

lemma Time_Unix_Add_30_Minute: "Time_Unix (Time_Add now (30 * Minute)) = Time_Unix now + 1800"
proof -
  have "(now + 1800 * 1000000000) div 1000000000 = 1800 + now div (1000000000::int)"
    by (rule div_mult_self1) simp
  then show ?thesis
    by (simp add: Time_Unix_def Time_Add_def Minute_def)
qed

lemma GenerateAuthorizationJWT_Inr:
  assumes "GenerateAuthorizationJWT D now kid bid iss privateKeyStr = Inr signedToken"
  shows "\<exists>h c sig.
           json_Marshal D [''typ'' \<mapsto> JString ''JWT'', ''alg'' \<mapsto> JString ''ES256'',
                           ''kid'' \<mapsto> JString kid] = Inr h
         \<and> json_Marshal D [''iss'' \<mapsto> JString iss, ''iat'' \<mapsto> JNumber (Time_Unix now),
                           ''exp'' \<mapsto> JNumber (Time_Unix now + 1800),
                           ''aud'' \<mapsto> JString ''appstoreconnect-v1'',
                           ''bid'' \<mapsto> JString bid] = Inr c
         \<and> signedToken = EncodeToString h @ CHR ''.'' # EncodeToString c @ CHR ''.'' # EncodeToString sig"
  using assms
  by (auto simp: GenerateAuthorizationJWT_def SignedString_def SigningString_def
      Method_Sign_def NewWithClaims_def Let_def Time_Unix_Add_30_Minute
      split: option.splits sum.splits if_splits)

text \<open>
  Claim C7. When \<^const>\<open>GenerateAuthorizationJWT\<close> succeeds, the envelope it returns splits
  at its dots into three segments. The first decodes from base64url to the JSON
  encoding of the header with the type \<^verbatim>\<open>JWT\<close>, the algorithm \<^verbatim>\<open>ES256\<close> and the supplied key id;
  the second decodes to the JSON encoding of exactly these claims: \<^verbatim>\<open>iss\<close> the supplied
  issuer id, \<^verbatim>\<open>iat\<close> the current time in seconds, \<^verbatim>\<open>exp\<close> that time plus 1800 seconds,
  \<^verbatim>\<open>aud\<close> the constant \<^verbatim>\<open>appstoreconnect-v1\<close>, \<^verbatim>\<open>bid\<close> the supplied bundle id.
\<close>

theorem GenerateAuthorizationJWT_claims:
  assumes "GenerateAuthorizationJWT D now kid bid iss privateKeyStr = Inr signedToken"
  shows "\<exists>hs cs ss h c.
           Split CHR ''.'' signedToken = [hs, cs, ss]
         \<and> DecodeString hs = Inr h
         \<and> json_Marshal D [''typ'' \<mapsto> JString ''JWT'', ''alg'' \<mapsto> JString ''ES256'',
                           ''kid'' \<mapsto> JString kid] = Inr h
         \<and> DecodeString cs = Inr c
         \<and> json_Marshal D [''iss'' \<mapsto> JString iss, ''iat'' \<mapsto> JNumber (Time_Unix now),
                           ''exp'' \<mapsto> JNumber (Time_Unix now + 30 * 60),
                           ''aud'' \<mapsto> JString ''appstoreconnect-v1'',
                           ''bid'' \<mapsto> JString bid] = Inr c"
proof -
  from GenerateAuthorizationJWT_Inr [OF assms] obtain h c sig where
    h: "json_Marshal D [''typ'' \<mapsto> JString ''JWT'', ''alg'' \<mapsto> JString ''ES256'',
                        ''kid'' \<mapsto> JString kid] = Inr h"
    and c: "json_Marshal D [''iss'' \<mapsto> JString iss, ''iat'' \<mapsto> JNumber (Time_Unix now),
                        ''exp'' \<mapsto> JNumber (Time_Unix now + 1800),
                        ''aud'' \<mapsto> JString ''appstoreconnect-v1'',
                        ''bid'' \<mapsto> JString bid] = Inr c"
    and tok: "signedToken
                = EncodeToString h @ CHR ''.'' # EncodeToString c @ CHR ''.'' # EncodeToString sig"
    by blast
  have "Split CHR ''.'' signedToken = [EncodeToString h, EncodeToString c, EncodeToString sig]"
    unfolding tok by (rule Split_three) (rule no_dot_EncodeToString)+
  with h c show ?thesis
    by (auto simp: DecodeString_EncodeToString)
qed

theorem GenerateAuthorizationJWT_claims_witness:
  "GenerateAuthorizationJWT issuer_stub now_2023 ''2X9R4HXF34'' ''com.example.testbundleid''
       ''57246542-96fe-1a63-e053-0824d011072a'' ''key'' = Inr issued_token
   \<and> (\<exists>hs cs ss.
         Split CHR ''.'' issued_token = [hs, cs, ss]
       \<and> DecodeString hs = Inr issued_header
       \<and> DecodeString cs = Inr issued_claims)"
proof -
  have unix: "Time_Unix now_2023 = 1700000000"
    by (simp add: Time_Unix_def now_2023_def)
  have tok: "GenerateAuthorizationJWT issuer_stub now_2023 ''2X9R4HXF34''
               ''com.example.testbundleid'' ''57246542-96fe-1a63-e053-0824d011072a'' ''key''
             = Inr issued_token"
    by (simp add: GenerateAuthorizationJWT_def SignedString_def SigningString_def
        Method_Sign_def NewWithClaims_def Let_def Time_Unix_Add_30_Minute unix
        issuer_stub_def marshal_stub_def issued_token_def)
  have h: "json_Marshal issuer_stub [''typ'' \<mapsto> JString ''JWT'', ''alg'' \<mapsto> JString ''ES256'',
             ''kid'' \<mapsto> JString ''2X9R4HXF34''] = Inr issued_header"
    by (simp add: issuer_stub_def marshal_stub_def)
  have c: "json_Marshal issuer_stub
             [''iss'' \<mapsto> JString ''57246542-96fe-1a63-e053-0824d011072a'',
              ''iat'' \<mapsto> JNumber (Time_Unix now_2023),
              ''exp'' \<mapsto> JNumber (Time_Unix now_2023 + 30 * 60),
              ''aud'' \<mapsto> JString ''appstoreconnect-v1'',
              ''bid'' \<mapsto> JString ''com.example.testbundleid''] = Inr issued_claims"
    by (simp add: issuer_stub_def marshal_stub_def unix)
  from GenerateAuthorizationJWT_claims [OF tok] h c tok show ?thesis
    by auto
qed

end
